theory Spec2Isabelle
  imports Complex_Main "HOL-Library.Multiset"
begin

section \<open>Attribute stores of FEM document objects\<close>

text \<open>
  The Python proxies \<^verbatim>\<open>ResultMechanical\<close> (femobjects/result\_mechanical.py) and
  \<^verbatim>\<open>Proxy\<close> (femsolver/elmer/equations/magnetodynamic.py) act on a host document object
  \<^verbatim>\<open>obj\<close>: they declare typed attributes on it, assign attribute values and, after a
  reload, migrate legacy layouts. The object is modelled as its attribute store, an
  association list in declaration order. Python floats are opaque here (no arithmetic is done
  on them by the modelled code) and are represented by reals.
\<close>

datatype ptype =
  PropertyString | PropertyInteger | PropertyFloat | PropertyBool
  | PropertyFloatList | PropertyVectorList | PropertyFrequency

datatype pvalue =
  VString string | VInteger int | VFloat real | VBool bool
  | VFloatList "real list" | VVectorList "(real \<times> real \<times> real) list" | VFrequency real

datatype error =
  DuplicateAttributeError | UnknownAttributeError | TypeMismatchError
  | ReadOnlyViolationError | CorruptMigrationStateError
  | TypeError | IndexError | ValueError

record property =
  semanticType :: ptype
  group :: string
  doc :: string
  readOnly :: bool
  hidden :: bool
  locked :: bool
  val :: pvalue

type_synonym obj = "(string \<times> property) list"

fun type_of :: "pvalue \<Rightarrow> ptype" where
  "type_of (VString _) = PropertyString"
| "type_of (VInteger _) = PropertyInteger"
| "type_of (VFloat _) = PropertyFloat"
| "type_of (VBool _) = PropertyBool"
| "type_of (VFloatList _) = PropertyFloatList"
| "type_of (VVectorList _) = PropertyVectorList"
| "type_of (VFrequency _) = PropertyFrequency"

fun default_value :: "ptype \<Rightarrow> pvalue" where
  "default_value PropertyString = VString []"
| "default_value PropertyInteger = VInteger 0"
| "default_value PropertyFloat = VFloat 0"
| "default_value PropertyBool = VBool False"
| "default_value PropertyFloatList = VFloatList []"
| "default_value PropertyVectorList = VVectorList []"
| "default_value PropertyFrequency = VFrequency 0"

subsection \<open>Host operations\<close>

text \<open>Python's \<^verbatim>\<open>hasattr(obj, name)\<close>.\<close>

definition hasattr :: "obj \<Rightarrow> string \<Rightarrow> bool" where
  "hasattr obj n = (map_of obj n \<noteq> None)"

text \<open>
  Modelled from the spec: the host's attribute read \<^verbatim>\<open>obj.name\<close> is not among the sources;
  section 4.2 gives \<^verbatim>\<open>get(name)\<close>, failing with UnknownAttributeError if absent.
\<close>

definition getattr :: "obj \<Rightarrow> string \<Rightarrow> error + pvalue" where
  "getattr obj n =
     (case map_of obj n of
        None \<Rightarrow> Inl UnknownAttributeError
      | Some p \<Rightarrow> Inr (val p))"

text \<open>Rewrites the entry that a lookup of \<open>n\<close> finds, keeping its place.\<close>

fun update_first :: "string \<Rightarrow> (property \<Rightarrow> property) \<Rightarrow> obj \<Rightarrow> obj" where
  "update_first n f [] = []"
| "update_first n f ((k, p) # rest) =
     (if k = n then (k, f p) # rest else (k, p) # update_first n f rest)"

text \<open>
  Modelled from the spec: the host's \<^verbatim>\<open>obj.addLockedProperty(type, name, group, doc, attr)\<close>
  is not among the sources; sections 4.1 and 6 give \<^verbatim>\<open>declare\<close> / \<^verbatim>\<open>addAttribute(type, name,
  group, doc, readOnly=false, hidden=false)\<close>: it fails with DuplicateAttributeError if the
  name is already declared, and otherwise the attribute enters the store with the default
  value of its type. The attribute is locked, as the operation's name says.
\<close>

definition addLockedProperty ::
    "obj \<Rightarrow> ptype \<Rightarrow> string \<Rightarrow> string \<Rightarrow> string \<Rightarrow> bool \<Rightarrow> error + obj" where
  "addLockedProperty obj t n g d ro =
     (if hasattr obj n then Inl DuplicateAttributeError
      else Inr (obj @ [(n, \<lparr>semanticType = t, group = g, doc = d, readOnly = ro,
                            hidden = False, locked = True, val = default_value t\<rparr>)]))"

text \<open>
  Modelled from the spec: the attribute assignment \<^verbatim>\<open>obj.name = value\<close> executed by the
  proxy's own code during construction and migration is the privileged write path of
  section 4.1: it is type-checked (TypeMismatchError), fails with UnknownAttributeError
  on an undeclared name, and does not look at the read-only flag.
\<close>

definition setattr :: "obj \<Rightarrow> string \<Rightarrow> pvalue \<Rightarrow> error + obj" where
  "setattr obj n v =
     (case map_of obj n of
        None \<Rightarrow> Inl UnknownAttributeError
      | Some p \<Rightarrow>
          if type_of v = semanticType p
          then Inr (update_first n (\<lambda>q. q\<lparr>val := v\<rparr>) obj)
          else Inl TypeMismatchError)"

text \<open>
  Modelled from the spec: the ordinary external \<^verbatim>\<open>set(name, value)\<close> of sections 4.1, 4.2
  and 8 is not among the sources. A read-only attribute rejects it with ReadOnlyViolationError
  regardless of the value; otherwise it behaves as the privileged write.
\<close>

definition set_external :: "obj \<Rightarrow> string \<Rightarrow> pvalue \<Rightarrow> error + obj" where
  "set_external obj n v =
     (case map_of obj n of
        None \<Rightarrow> Inl UnknownAttributeError
      | Some p \<Rightarrow>
          if readOnly p then Inl ReadOnlyViolationError
          else setattr obj n v)"

text \<open>
  Modelled from the spec: the host's \<^verbatim>\<open>obj.setPropertyStatus(name, status)\<close> is not among the
  sources and the spec gives it no contract of its own. Following section 4.2 it fails with
  UnknownAttributeError on an absent name; the status \<^verbatim>\<open>LockDynamic\<close> sets and
  \<^verbatim>\<open>-LockDynamic\<close> clears the lock that \<^verbatim>\<open>addLockedProperty\<close> puts on an attribute,
  likewise for the read-only and hidden flags; any other status is a ValueError.
\<close>

definition setPropertyStatus :: "obj \<Rightarrow> string \<Rightarrow> string \<Rightarrow> error + obj" where
  "setPropertyStatus obj n st =
     (if \<not> hasattr obj n then Inl UnknownAttributeError
      else if st = ''LockDynamic'' then Inr (update_first n (\<lambda>q. q\<lparr>locked := True\<rparr>) obj)
      else if st = ''-LockDynamic'' then Inr (update_first n (\<lambda>q. q\<lparr>locked := False\<rparr>) obj)
      else if st = ''ReadOnly'' then Inr (update_first n (\<lambda>q. q\<lparr>readOnly := True\<rparr>) obj)
      else if st = ''-ReadOnly'' then Inr (update_first n (\<lambda>q. q\<lparr>readOnly := False\<rparr>) obj)
      else if st = ''Hidden'' then Inr (update_first n (\<lambda>q. q\<lparr>hidden := True\<rparr>) obj)
      else if st = ''-Hidden'' then Inr (update_first n (\<lambda>q. q\<lparr>hidden := False\<rparr>) obj)
      else Inl ValueError)"

text \<open>
  Modelled from the spec: the host's \<^verbatim>\<open>obj.removeProperty(name)\<close> is not among the sources;
  section 4.2 gives \<^verbatim>\<open>remove(name)\<close>: it deletes the key entirely and fails with
  UnknownAttributeError if absent.
\<close>

definition removeProperty :: "obj \<Rightarrow> string \<Rightarrow> error + obj" where
  "removeProperty obj n =
     (if hasattr obj n then Inr (filter (\<lambda>kp. fst kp \<noteq> n) obj)
      else Inl UnknownAttributeError)"

subsection \<open>Statements\<close>

text \<open>
  A statement either raises, leaving the object as it is, or yields the mutated object. A
  block runs its statements in order on the one object; when a statement raises, the block
  stops there and the object keeps every mutation made so far (Python does not roll back).
\<close>

type_synonym stmt = "obj \<Rightarrow> error + obj"

fun run :: "stmt list \<Rightarrow> obj \<Rightarrow> obj \<times> error option" where
  "run [] s = (s, None)"
| "run (f # fs) s = (case f s of Inl e \<Rightarrow> (s, Some e) | Inr s' \<Rightarrow> run fs s')"

definition seq ::
    "(obj \<Rightarrow> obj \<times> error option) \<Rightarrow> (obj \<Rightarrow> obj \<times> error option) \<Rightarrow> obj \<Rightarrow> obj \<times> error option" where
  "seq p q s = (case p s of (s', Some e) \<Rightarrow> (s', Some e) | (s', None) \<Rightarrow> q s')"

subsection \<open>Python list primitives used by the migration\<close>

text \<open>\<^verbatim>\<open>len(v)\<close>: defined on strings and lists, a TypeError on the other values.\<close>

fun py_len :: "pvalue \<Rightarrow> error + nat" where
  "py_len (VString s) = Inr (length s)"
| "py_len (VFloatList xs) = Inr (length xs)"
| "py_len (VVectorList xs) = Inr (length xs)"
| "py_len _ = Inl TypeError"

definition del_at :: "nat \<Rightarrow> 'a list \<Rightarrow> 'a list" where
  "del_at k xs = take k xs @ drop (Suc k) xs"

text \<open>
  \<^verbatim>\<open>del temp[k]\<close> for a non-negative index: an IndexError out of range, a TypeError on a
  value that does not support item deletion (strings and scalars).
\<close>

fun py_delitem :: "pvalue \<Rightarrow> nat \<Rightarrow> error + pvalue" where
  "py_delitem (VFloatList xs) k =
     (if k < length xs then Inr (VFloatList (del_at k xs)) else Inl IndexError)"
| "py_delitem (VVectorList xs) k =
     (if k < length xs then Inr (VVectorList (del_at k xs)) else Inl IndexError)"
| "py_delitem _ k = Inl TypeError"

text \<open>
  \<^verbatim>\<open>for i in range(12, -1, -1): del temp[3 * i + 1]\<close>, over the list of loop indices.
\<close>

fun del_loop :: "nat list \<Rightarrow> pvalue \<Rightarrow> error + pvalue" where
  "del_loop [] temp = Inr temp"
| "del_loop (i # rest) temp =
     (case py_delitem temp (3 * i + 1) of
        Inl e \<Rightarrow> Inl e
      | Inr t \<Rightarrow> del_loop rest t)"

text \<open>\<^verbatim>\<open>range(12, -1, -1)\<close> is 12, 11, ..., 0.\<close>

definition range_12_down :: "nat list" where
  "range_12_down = rev [0..<13]"

subsection \<open>ResultMechanical.onDocumentRestored\<close>

text \<open>
  The first block: \<^verbatim>\<open>if hasattr(obj, "StressValues") is True:\<close> declare vonMises, copy the
  value, unlock and remove StressValues.
\<close>

definition rename_rule :: "obj \<Rightarrow> obj \<times> error option" where
  "rename_rule obj =
     (if hasattr obj ''StressValues'' then
        run [(\<lambda>ob. addLockedProperty ob PropertyFloatList ''vonMises'' ''NodeData''
                     ''List of von Mises equivalent stresses'' True),
             (\<lambda>ob. case getattr ob ''StressValues'' of
                      Inl e \<Rightarrow> Inl e
                    | Inr v \<Rightarrow> setattr ob ''vonMises'' v),
             (\<lambda>ob. setPropertyStatus ob ''StressValues'' ''-LockDynamic''),
             (\<lambda>ob. removeProperty ob ''StressValues'')] obj
      else (obj, None))"

text \<open>
  The second block: \<^verbatim>\<open>if len(obj.Stats) == 39:\<close> copy the list, delete the entries
  3 * i + 1 for i = 12 down to 0, and assign the list back. The attribute read hands out a
  fresh list, so the deletions act on the local \<^verbatim>\<open>temp\<close> only.
\<close>

definition shape_rule :: "obj \<Rightarrow> obj \<times> error option" where
  "shape_rule obj =
     (case getattr obj ''Stats'' of
        Inl e \<Rightarrow> (obj, Some e)
      | Inr stats \<Rightarrow>
          (case py_len stats of
             Inl e \<Rightarrow> (obj, Some e)
           | Inr n \<Rightarrow>
               if n = 39 then
                 (case del_loop range_12_down stats of
                    Inl e \<Rightarrow> (obj, Some e)
                  | Inr temp \<Rightarrow> run [(\<lambda>ob. setattr ob ''Stats'' temp)] obj)
               else (obj, None)))"

definition onDocumentRestored :: "obj \<Rightarrow> obj \<times> error option" where
  "onDocumentRestored = seq rename_rule shape_rule"

text \<open>The two blocks in the opposite order, for comparison with the source's order.\<close>

definition shape_then_rename :: "obj \<Rightarrow> obj \<times> error option" where
  "shape_then_rename = seq shape_rule rename_rule"

text \<open>
  The reduction in the spec's words, for comparison with the loop: a list of (min, avg, max)
  triples becomes the list of (min, max) pairs.
\<close>

fun drop_avg :: "'a list \<Rightarrow> 'a list" where
  "drop_avg (mn # av # mx # rest) = mn # mx # drop_avg rest"
| "drop_avg xs = []"

subsection \<open>Auxiliary notions for the migration\<close>

text \<open>The vonMises attribute as \<^verbatim>\<open>onDocumentRestored\<close> declares it.\<close>

definition vonMises_decl :: property where
  "vonMises_decl = \<lparr>semanticType = PropertyFloatList, group = ''NodeData'',
     doc = ''List of von Mises equivalent stresses'', readOnly = True,
     hidden = False, locked = True, val = VFloatList []\<rparr>"

text \<open>The store after a rename block that ran to its end, \<open>v\<close> being the copied value.\<close>

definition renamed :: "obj \<Rightarrow> pvalue \<Rightarrow> obj" where
  "renamed obj v =
     filter (\<lambda>kp. fst kp \<noteq> ''StressValues'')
       (update_first ''StressValues'' (\<lambda>q. q\<lparr>locked := False\<rparr>)
          (update_first ''vonMises'' (\<lambda>q. q\<lparr>val := v\<rparr>) (obj @ [(''vonMises'', vonMises_decl)])))"

text \<open>
  What the second block does, as a function of the Stats entry alone: the list it assigns,
  if any, and the error it raises, if any.
\<close>

definition shape_outcome :: "property option \<Rightarrow> pvalue option \<times> error option" where
  "shape_outcome e =
     (case e of None \<Rightarrow> (None, Some UnknownAttributeError)
      | Some p \<Rightarrow>
         (case py_len (val p) of Inl er \<Rightarrow> (None, Some er)
          | Inr n \<Rightarrow> if n = 39 then
               (case del_loop range_12_down (val p) of Inl er \<Rightarrow> (None, Some er)
                | Inr temp \<Rightarrow> if type_of temp = semanticType p then (Some temp, None)
                     else (None, Some TypeMismatchError))
              else (None, None)))"

text \<open>The declared type of an attribute (the host's \<^verbatim>\<open>getTypeIdOfProperty\<close>).\<close>

definition declared_type :: "obj \<Rightarrow> string \<Rightarrow> ptype option" where
  "declared_type obj n = map_option semanticType (map_of obj n)"

text \<open>
  The legacy shape the rename block is written for: StressValues, when present, holds a
  float list and vonMises has not been declared yet.
\<close>

definition rename_ready :: "obj \<Rightarrow> bool" where
  "rename_ready obj =
     (case map_of obj ''StressValues'' of
        None \<Rightarrow> True
      | Some p \<Rightarrow> type_of (val p) = PropertyFloatList \<and> \<not> hasattr obj ''vonMises'')"

text \<open>The guard of the second block, \<^verbatim>\<open>len(obj.Stats) == 39\<close>, as a predicate.\<close>

definition stats_shape_matches :: "obj \<Rightarrow> bool" where
  "stats_shape_matches obj =
     (case getattr obj ''Stats'' of Inl e \<Rightarrow> False | Inr v \<Rightarrow> py_len v = Inr 39)"

subsection \<open>ResultMechanical.\_\_init\_\_\<close>

text \<open>
  The class attribute \<^verbatim>\<open>Type\<close>, and \<^verbatim>\<open>zero_list = 26 * [0]\<close>. The constructor body
  follows; its argument is the host object as \<^verbatim>\<open>super().__init__(obj)\<close> leaves it (the
  base class and the host's own attributes, Stats among them, are not among the sources). The fifth
  argument of \<^verbatim>\<open>addLockedProperty\<close> (1 or True) is the read-only flag.
\<close>

definition ResultMechanical_Type :: string where
  "ResultMechanical_Type = ''Fem::ResultMechanical''"

definition zero_list :: "real list" where
  "zero_list = replicate 26 0"

definition ResultMechanical_init :: "obj \<Rightarrow> obj \<times> error option" where
  "ResultMechanical_init =
     run [(\<lambda>ob. addLockedProperty ob PropertyString ''ResultType'' ''Base''
          ''Type of the result'' True),
       (\<lambda>ob. setattr ob ''ResultType'' (VString ResultMechanical_Type)),
       (\<lambda>ob. addLockedProperty ob PropertyInteger ''Eigenmode'' ''Data''
          '''' True),
       (\<lambda>ob. addLockedProperty ob PropertyFloat ''EigenmodeFrequency'' ''Data''
          ''User Defined Results'' True),
       (\<lambda>ob. addLockedProperty ob PropertyVectorList ''DisplacementVectors'' ''NodeData''
          ''List of displacement vectors'' True),
       (\<lambda>ob. addLockedProperty ob PropertyFloatList ''Peeq'' ''NodeData''
          ''List of equivalent plastic strain values'' True),
       (\<lambda>ob. addLockedProperty ob PropertyFloatList ''MohrCoulomb'' ''NodeData''
          ''List of Mohr Coulomb stress values'' True),
       (\<lambda>ob. addLockedProperty ob PropertyFloatList ''ReinforcementRatio_x'' ''NodeData''
          ''Reinforcement ratio x-direction'' True),
       (\<lambda>ob. addLockedProperty ob PropertyFloatList ''ReinforcementRatio_y'' ''NodeData''
          ''Reinforcement ratio y-direction'' True),
       (\<lambda>ob. addLockedProperty ob PropertyFloatList ''ReinforcementRatio_z'' ''NodeData''
          ''Reinforcement ratio z-direction'' True),
       (\<lambda>ob. addLockedProperty ob PropertyVectorList ''PS1Vector'' ''NodeData''
          ''List of 1st Principal Stress Vectors'' True),
       (\<lambda>ob. addLockedProperty ob PropertyVectorList ''PS2Vector'' ''NodeData''
          ''List of 2nd Principal Stress Vectors'' True),
       (\<lambda>ob. addLockedProperty ob PropertyVectorList ''PS3Vector'' ''NodeData''
          ''List of 3rd Principal Stress Vectors'' True),
       (\<lambda>ob. addLockedProperty ob PropertyFloatList ''DisplacementLengths'' ''NodeData''
          ''List of displacement lengths'' True),
       (\<lambda>ob. addLockedProperty ob PropertyFloatList ''vonMises'' ''NodeData''
          ''List of von Mises equivalent stresses'' True),
       (\<lambda>ob. addLockedProperty ob PropertyFloatList ''PrincipalMax'' ''NodeData''
          '''' True),
       (\<lambda>ob. addLockedProperty ob PropertyFloatList ''PrincipalMed'' ''NodeData''
          '''' True),
       (\<lambda>ob. addLockedProperty ob PropertyFloatList ''PrincipalMin'' ''NodeData''
          '''' True),
       (\<lambda>ob. addLockedProperty ob PropertyFloatList ''MaxShear'' ''NodeData''
          ''List of Maximum Shear stress values'' True),
       (\<lambda>ob. addLockedProperty ob PropertyFloatList ''MassFlowRate'' ''NodeData''
          ''List of mass flow rate values'' True),
       (\<lambda>ob. addLockedProperty ob PropertyFloatList ''NetworkPressure'' ''NodeData''
          ''List of network pressure values'' True),
       (\<lambda>ob. addLockedProperty ob PropertyFloatList ''UserDefined'' ''NodeData''
          ''User Defined Results'' True),
       (\<lambda>ob. addLockedProperty ob PropertyFloatList ''Temperature'' ''NodeData''
          ''Temperature field'' True),
       (\<lambda>ob. addLockedProperty ob PropertyVectorList ''HeatFlux'' ''NodeData''
          ''List of heat flux vectors'' True),
       (\<lambda>ob. addLockedProperty ob PropertyFloatList ''NodeStressXX'' ''NodeData''
          '''' True),
       (\<lambda>ob. addLockedProperty ob PropertyFloatList ''NodeStressYY'' ''NodeData''
          '''' True),
       (\<lambda>ob. addLockedProperty ob PropertyFloatList ''NodeStressZZ'' ''NodeData''
          '''' True),
       (\<lambda>ob. addLockedProperty ob PropertyFloatList ''NodeStressXY'' ''NodeData''
          '''' True),
       (\<lambda>ob. addLockedProperty ob PropertyFloatList ''NodeStressXZ'' ''NodeData''
          '''' True),
       (\<lambda>ob. addLockedProperty ob PropertyFloatList ''NodeStressYZ'' ''NodeData''
          '''' True),
       (\<lambda>ob. addLockedProperty ob PropertyFloatList ''NodeStrainXX'' ''NodeData''
          '''' True),
       (\<lambda>ob. addLockedProperty ob PropertyFloatList ''NodeStrainYY'' ''NodeData''
          '''' True),
       (\<lambda>ob. addLockedProperty ob PropertyFloatList ''NodeStrainZZ'' ''NodeData''
          '''' True),
       (\<lambda>ob. addLockedProperty ob PropertyFloatList ''NodeStrainXY'' ''NodeData''
          '''' True),
       (\<lambda>ob. addLockedProperty ob PropertyFloatList ''NodeStrainXZ'' ''NodeData''
          '''' True),
       (\<lambda>ob. addLockedProperty ob PropertyFloatList ''NodeStrainYZ'' ''NodeData''
          '''' True),
       (\<lambda>ob. addLockedProperty ob PropertyFloatList ''CriticalStrainRatio'' ''NodeData''
          '''' True),
       (\<lambda>ob. setattr ob ''Stats'' (VFloatList zero_list))]"

subsection \<open>Proxy.\_\_init\_\_ of the Elmer magnetodynamic equation\<close>

text \<open>
  The constructor body of femsolver/elmer/equations/magnetodynamic.py; its argument is the
  object as \<^verbatim>\<open>super().__init__(obj)\<close> leaves it (the base equation classes, which declare
  Priority, are not among the sources).
\<close>

definition Magnetodynamic_init :: "obj \<Rightarrow> obj \<times> error option" where
  "Magnetodynamic_init =
     run [(\<lambda>ob. addLockedProperty ob PropertyBool ''IsHarmonic'' ''Magnetodynamic''
          ''If the magnetic source is harmonically driven'' False),
       (\<lambda>ob. addLockedProperty ob PropertyFrequency ''AngularFrequency'' ''Magnetodynamic''
          ''Frequency of the driving current'' False),
       (\<lambda>ob. addLockedProperty ob PropertyBool ''UsePiolaTransform'' ''Magnetodynamic''
          ''Must be True if basis functions for edge element interpolation\<newline>are selected to be members of optimal edge element family\<newline>or if second-order approximation is used.'' False),
       (\<lambda>ob. addLockedProperty ob PropertyBool ''QuadraticApproximation'' ''Magnetodynamic''
          ''Enables second-order approximation of driving current'' False),
       (\<lambda>ob. addLockedProperty ob PropertyBool ''StaticConductivity'' ''Magnetodynamic''
          ''See Elmer models manual for info'' False),
       (\<lambda>ob. addLockedProperty ob PropertyBool ''FixInputCurrentDensity'' ''Magnetodynamic''
          ''Ensures divergence-freeness of current density'' False),
       (\<lambda>ob. addLockedProperty ob PropertyBool ''AutomatedSourceProjectionBCs'' ''Magnetodynamic''
          ''See Elmer models manual for info'' False),
       (\<lambda>ob. addLockedProperty ob PropertyBool ''UseLagrangeGauge'' ''Magnetodynamic''
          ''See Elmer models manual for info'' False),
       (\<lambda>ob. addLockedProperty ob PropertyFloat ''LagrangeGaugePenalizationCoefficient'' ''Magnetodynamic''
          ''See Elmer models manual for info'' False),
       (\<lambda>ob. addLockedProperty ob PropertyBool ''UseTreeGauge'' ''Magnetodynamic''
          ''See Elmer models manual for info\<newline>Will be ignored if 'UsePiolaTransform' is True'' False),
       (\<lambda>ob. addLockedProperty ob PropertyBool ''LinearSystemRefactorize'' ''Linear System''
          '''' False),
       (\<lambda>ob. setattr ob ''IsHarmonic'' (VBool False)),
       (\<lambda>ob. setattr ob ''AngularFrequency'' (VFrequency 0)),
       (\<lambda>ob. setattr ob ''Priority'' (VInteger 10)),
       (\<lambda>ob. addLockedProperty ob PropertyBool ''CalculateCurrentDensity'' ''Results''
          '''' False),
       (\<lambda>ob. addLockedProperty ob PropertyBool ''CalculateElectricField'' ''Results''
          '''' False),
       (\<lambda>ob. addLockedProperty ob PropertyBool ''CalculateElementalFields'' ''Results''
          '''' False),
       (\<lambda>ob. addLockedProperty ob PropertyBool ''CalculateHarmonicLoss'' ''Results''
          '''' False),
       (\<lambda>ob. addLockedProperty ob PropertyBool ''CalculateJouleHeating'' ''Results''
          '''' False),
       (\<lambda>ob. addLockedProperty ob PropertyBool ''CalculateMagneticFieldStrength'' ''Results''
          '''' False),
       (\<lambda>ob. addLockedProperty ob PropertyBool ''CalculateMaxwellStress'' ''Results''
          '''' False),
       (\<lambda>ob. addLockedProperty ob PropertyBool ''CalculateNodalFields'' ''Results''
          '''' False),
       (\<lambda>ob. addLockedProperty ob PropertyBool ''CalculateNodalForces'' ''Results''
          '''' False),
       (\<lambda>ob. addLockedProperty ob PropertyBool ''CalculateNodalHeating'' ''Results''
          '''' False),
       (\<lambda>ob. addLockedProperty ob PropertyBool ''DiscontinuousBodies'' ''Results''
          '''' False),
       (\<lambda>ob. setattr ob ''CalculateCurrentDensity'' (VBool False)),
       (\<lambda>ob. setattr ob ''CalculateElectricField'' (VBool False)),
       (\<lambda>ob. setattr ob ''CalculateElementalFields'' (VBool False)),
       (\<lambda>ob. setattr ob ''CalculateHarmonicLoss'' (VBool False)),
       (\<lambda>ob. setattr ob ''CalculateJouleHeating'' (VBool False)),
       (\<lambda>ob. setattr ob ''CalculateMagneticFieldStrength'' (VBool False)),
       (\<lambda>ob. setattr ob ''CalculateMaxwellStress'' (VBool False)),
       (\<lambda>ob. setattr ob ''CalculateNodalFields'' (VBool True)),
       (\<lambda>ob. setattr ob ''CalculateNodalForces'' (VBool False)),
       (\<lambda>ob. setattr ob ''CalculateNodalHeating'' (VBool False)),
       (\<lambda>ob. setattr ob ''DiscontinuousBodies'' (VBool False))]"

text \<open>The result toggles of the Results group other than CalculateNodalFields.\<close>

definition sibling_toggles :: "string list" where
  "sibling_toggles =
    [''CalculateCurrentDensity'',
     ''CalculateElectricField'',
     ''CalculateElementalFields'',
     ''CalculateHarmonicLoss'',
     ''CalculateJouleHeating'',
     ''CalculateMagneticFieldStrength'',
     ''CalculateMaxwellStress'',
     ''CalculateNodalForces'',
     ''CalculateNodalHeating'',
     ''DiscontinuousBodies'']"

subsection \<open>Evaluation order of equations\<close>

text \<open>
  Modelled from the spec: the resolver of the evaluation order is not among the sources. Section
  4.4: ascending numeric order of Priority, ties broken by declaration order (first-declared
  wins). Instances are taken in declaration order and each is placed behind every instance
  whose priority is not larger.
\<close>

fun insert_by_priority :: "('a \<Rightarrow> int) \<Rightarrow> 'a \<Rightarrow> 'a list \<Rightarrow> 'a list" where
  "insert_by_priority key x [] = [x]"
| "insert_by_priority key x (y # ys) =
     (if key x < key y then x # y # ys else y # insert_by_priority key x ys)"

text \<open>
  Modelled from the spec: the resolved evaluation order of the instances attached to one
  context (section 4.4), the resolver not being among the sources.
\<close>

definition resolve_order :: "('a \<Rightarrow> int) \<Rightarrow> 'a list \<Rightarrow> 'a list" where
  "resolve_order key xs = foldl (\<lambda>acc x. insert_by_priority key x acc) [] xs"

subsection \<open>Reasoning about blocks\<close>

text \<open>A statement preserves a property of the store; a named entry satisfies a predicate.\<close>

definition preserves :: "(obj \<Rightarrow> bool) \<Rightarrow> stmt \<Rightarrow> bool" where
  "preserves P f = (\<forall>s s'. P s \<longrightarrow> f s = Inr s' \<longrightarrow> P s')"

definition has_entry :: "string \<Rightarrow> (property \<Rightarrow> bool) \<Rightarrow> obj \<Rightarrow> bool" where
  "has_entry k Q s = (case map_of s k of None \<Rightarrow> False | Some p \<Rightarrow> Q p)"

subsection \<open>Concrete objects\<close>

text \<open>
  A host result object before construction (it carries the host's Stats attribute), a host
  equation object after the base constructors, a legacy result object as an old document
  stores it, an object that carries both the old and the new stress attribute, an object
  without Stats, a read-only attribute on its own, and three equations with their priorities.
\<close>

definition host_result_object :: obj where
  "host_result_object = [(''Stats'', \<lparr>semanticType = PropertyFloatList, group = ''Data'',
      doc = ''Statistics of the results'', readOnly = False, hidden = False, locked = False,
      val = VFloatList []\<rparr>)]"

definition host_equation_object :: obj where
  "host_equation_object = [(''Priority'', \<lparr>semanticType = PropertyInteger, group = ''Base'',
      doc = ''Number used to order the equations'', readOnly = False, hidden = False,
      locked = True, val = VInteger 0\<rparr>)]"

definition legacy_stats :: "real list" where
  "legacy_stats = [1, 2, 3, 4, 5, 6, 7, 8, 9, 10, 11, 12, 13, 14, 15, 16, 17, 18, 19, 20, 21, 22, 23, 24, 25, 26, 27, 28, 29, 30, 31, 32, 33, 34, 35, 36, 37, 38, 39]"

definition legacy_result_object :: obj where
  "legacy_result_object =
     [(''Stats'', \<lparr>semanticType = PropertyFloatList, group = ''Data'',
         doc = ''Statistics of the results'', readOnly = False, hidden = False, locked = False,
         val = VFloatList legacy_stats\<rparr>),
      (''StressValues'', \<lparr>semanticType = PropertyFloatList, group = ''NodeData'',
         doc = [], readOnly = True, hidden = False, locked = False,
         val = VFloatList [7, 8, 9]\<rparr>)]"

definition doubly_declared_object :: obj where
  "doubly_declared_object =
     [(''Stats'', \<lparr>semanticType = PropertyFloatList, group = ''Data'',
         doc = ''Statistics of the results'', readOnly = False, hidden = False, locked = False,
         val = VFloatList legacy_stats\<rparr>),
      (''vonMises'', \<lparr>semanticType = PropertyFloatList, group = ''NodeData'',
         doc = ''List of von Mises equivalent stresses'', readOnly = True, hidden = False,
         locked = True, val = VFloatList []\<rparr>),
      (''StressValues'', \<lparr>semanticType = PropertyFloatList, group = ''NodeData'',
         doc = [], readOnly = True, hidden = False, locked = False,
         val = VFloatList [7, 8, 9]\<rparr>)]"

definition statsless_object :: obj where
  "statsless_object =
     [(''StressValues'', \<lparr>semanticType = PropertyFloatList, group = ''NodeData'',
         doc = [], readOnly = True, hidden = False, locked = False,
         val = VFloatList [7, 8, 9]\<rparr>)]"

definition read_only_example :: obj where
  "read_only_example = [(''ResultType'', \<lparr>semanticType = PropertyString, group = ''Base'',
      doc = ''Type of the result'', readOnly = True, hidden = False, locked = True,
      val = VString ''Fem::ResultMechanical''\<rparr>)]"

text \<open>A result object whose StressValues attribute holds a string instead of a float list.\<close>

definition mistyped_legacy_object :: obj where
  "mistyped_legacy_object =
     [(''Stats'', \<lparr>semanticType = PropertyFloatList, group = ''Data'',
         doc = ''Statistics of the results'', readOnly = False, hidden = False, locked = False,
         val = VFloatList legacy_stats\<rparr>),
      (''StressValues'', \<lparr>semanticType = PropertyString, group = ''NodeData'',
         doc = [], readOnly = True, hidden = False, locked = False,
         val = VString ''abc''\<rparr>)]"

definition three_equations :: "(string \<times> int) list" where
  "three_equations = [(''instance1'', 10), (''instance2'', 5), (''instance3'', 10)]"

section \<open>Properties\<close>

subsection \<open>Lookups after the host operations\<close>

lemma map_of_update_first:
  "map_of (update_first n f obj) k = (if k = n then map_option f (map_of obj n) else map_of obj k)"
  by (induction obj) auto

lemma map_of_remove:
  "map_of (filter (\<lambda>kp. fst kp \<noteq> n) obj) k = (if k = n then None else map_of obj k)"
  by (induction obj) auto

lemma map_of_snoc:
  "map_of (obj @ [(n, p)]) k =
     (case map_of obj k of Some q \<Rightarrow> Some q | None \<Rightarrow> if k = n then Some p else None)"
  by (induction obj) auto

lemma update_first_commute:
  "n \<noteq> m \<Longrightarrow> update_first n f (update_first m g obj) = update_first m g (update_first n f obj)"
  by (induction obj) auto

lemma update_first_remove:
  "n \<noteq> m \<Longrightarrow> update_first n f (filter (\<lambda>kp. fst kp \<noteq> m) obj)
     = filter (\<lambda>kp. fst kp \<noteq> m) (update_first n f obj)"
  by (induction obj) auto

lemma update_first_snoc_present:
  "map_of xs n \<noteq> None \<Longrightarrow> update_first n f (xs @ ys) = update_first n f xs @ ys"
  by (induction xs) auto

lemma pair_collapse_None: "snd r = None \<Longrightarrow> r = (fst r, None)"
  by (cases r) simp

subsection \<open>The deletion loop\<close>

lemma drop_avg_append:
  "length ys = 3 * n \<Longrightarrow> drop_avg (ys @ ws) = drop_avg ys @ drop_avg ws"
proof (induction n arbitrary: ys)
  case 0
  then show ?case by simp
next
  case (Suc n)
  then obtain a b c rest where ys: "ys = a # b # c # rest"
    by (cases ys rule: drop_avg.cases) auto
  with Suc.prems have "length rest = 3 * n" by simp
  with Suc.IH ys show ?case by simp
qed

lemma length_three: "length l = 3 \<Longrightarrow> \<exists>a b c. l = [a, b, c]"
  by (auto simp: numeral_3_eq_3 length_Suc_conv)

lemma split_last_triple:
  assumes "length ys = 3 * Suc n"
  obtains ys' a b c where "ys = ys' @ [a, b, c]" "length ys' = 3 * n"
proof -
  have "length (drop (3 * n) ys) = 3" using assms by simp
  then obtain a b c where d: "drop (3 * n) ys = [a, b, c]"
    using length_three by blast
  have "ys = take (3 * n) ys @ [a, b, c]"
    using d append_take_drop_id [of "3 * n" ys] by simp
  moreover have "length (take (3 * n) ys) = 3 * n" using assms by simp
  ultimately show ?thesis using that by blast
qed

lemma drop_avg_nths: "length xs = 3 * n \<Longrightarrow> drop_avg xs = nths xs {i. i mod 3 \<noteq> 1}"
proof (induction n arbitrary: xs)
  case 0
  then show ?case by simp
next
  case (Suc n)
  then obtain a b c rest where xs: "xs = a # b # c # rest"
    by (cases xs rule: drop_avg.cases) auto
  with Suc.prems have "length rest = 3 * n" by simp
  moreover have "\<And>j::nat. Suc (Suc (Suc j)) mod 3 = j mod 3"
    by presburger
  then have "{j. Suc (Suc (Suc j)) mod 3 \<noteq> 1} = {j. j mod 3 \<noteq> 1}"
    by simp
  ultimately show ?case using Suc.IH xs by (simp add: nths_Cons)
qed

lemma length_drop_avg: "length xs = 3 * n \<Longrightarrow> length (drop_avg xs) = 2 * n"
proof (induction n arbitrary: xs)
  case 0
  then show ?case by simp
next
  case (Suc n)
  then obtain a b c rest where xs: "xs = a # b # c # rest"
    by (cases xs rule: drop_avg.cases) auto
  with Suc show ?case by simp
qed

lemma drop_avg_nth:
  "length xs = 3 * n \<Longrightarrow> j < n \<Longrightarrow>
     drop_avg xs ! (2 * j) = xs ! (3 * j) \<and> drop_avg xs ! (2 * j + 1) = xs ! (3 * j + 2)"
proof (induction n arbitrary: xs j)
  case 0
  then show ?case by simp
next
  case (Suc n)
  then obtain a b c rest where xs: "xs = a # b # c # rest"
    by (cases xs rule: drop_avg.cases) auto
  with Suc.prems have len: "length rest = 3 * n" by simp
  show ?case
  proof (cases j)
    case 0
    then show ?thesis by (simp add: xs)
  next
    case (Suc i)
    with Suc.prems have "i < n" by simp
    from Suc.IH [OF len this] show ?thesis
      by (simp add: xs Suc)
  qed
qed

lemma nths_facts:
  assumes "length xs = 39"
  shows "length (nths xs {i. i mod 3 \<noteq> 1}) = 26"
    and "j < 13 \<Longrightarrow> nths xs {i. i mod 3 \<noteq> 1} ! (2 * j) = xs ! (3 * j)
        \<and> nths xs {i. i mod 3 \<noteq> 1} ! (2 * j + 1) = xs ! (3 * j + 2)"
proof -
  have l: "length xs = 3 * 13" using assms by simp
  show "length (nths xs {i. i mod 3 \<noteq> 1}) = 26"
    using length_drop_avg [OF l] drop_avg_nths [OF l] by simp
  show "j < 13 \<Longrightarrow> nths xs {i. i mod 3 \<noteq> 1} ! (2 * j) = xs ! (3 * j)
        \<and> nths xs {i. i mod 3 \<noteq> 1} ! (2 * j + 1) = xs ! (3 * j + 2)"
    using drop_avg_nth [OF l, of j] drop_avg_nths [OF l] by simp
qed

lemma del_loop_suffix:
  "length ws = 3 * k \<Longrightarrow> length ys = 3 * m \<Longrightarrow>
     del_loop (rev [k..<k + m]) (VFloatList (ws @ ys @ zs)) = Inr (VFloatList (ws @ drop_avg ys @ zs))"
proof (induction m arbitrary: ys zs)
  case 0
  then show ?case by simp
next
  case (Suc m)
  from Suc.prems(2) obtain ys' a b c where ys: "ys = ys' @ [a, b, c]" and len: "length ys' = 3 * m"
    by (rule split_last_triple)
  have "take (3 * (k + m) + 1) (ws @ ys' @ a # b # c # zs) = ws @ ys' @ [a]"
    using Suc.prems(1) len by simp
  moreover have "drop (Suc (3 * (k + m) + 1)) (ws @ ys' @ a # b # c # zs) = c # zs"
    using Suc.prems(1) len by simp
  ultimately have del: "py_delitem (VFloatList (ws @ ys @ zs)) (3 * (k + m) + 1)
      = Inr (VFloatList (ws @ ys' @ (a # c # zs)))"
    using Suc.prems(1) len by (simp add: ys del_at_def)
  have "drop_avg ys = drop_avg ys' @ [a, c]"
    using len by (simp add: ys drop_avg_append)
  with Suc.IH [OF Suc.prems(1) len, of "a # c # zs"] del show ?case by simp
qed

lemma del_loop_partial:
  assumes "length xs = 39" and "k \<le> 13"
  shows "del_loop (rev [k..<13]) (VFloatList xs)
      = Inr (VFloatList (take (3 * k) xs @ nths (drop (3 * k) xs) {i. i mod 3 \<noteq> 1}))"
proof -
  have l1: "length (take (3 * k) xs) = 3 * k" using assms by simp
  have l2: "length (drop (3 * k) xs) = 3 * (13 - k)" using assms by simp
  from del_loop_suffix [OF l1 l2, of "[]"] assms(2)
  show ?thesis by (simp add: drop_avg_nths [OF l2])
qed

lemma py_delitem_len:
  "py_delitem t k = Inr t' \<Longrightarrow> py_len t = Inr n \<Longrightarrow> py_len t' = Inr (n - 1)"
  by (cases t) (auto simp: del_at_def split: if_splits)

lemma del_loop_len:
  "del_loop is t = Inr t' \<Longrightarrow> py_len t = Inr n \<Longrightarrow> py_len t' = Inr (n - length is)"
proof (induction "is" arbitrary: t n)
  case Nil
  then show ?case by simp
next
  case (Cons i rest)
  from Cons.prems(1) obtain t1 where d: "py_delitem t (3 * i + 1) = Inr t1"
    and r: "del_loop rest t1 = Inr t'"
    by (auto split: sum.splits)
  from py_delitem_len [OF d Cons.prems(2)] have "py_len t1 = Inr (n - 1)" .
  from Cons.IH [OF r this] show ?case by simp
qed

subsection \<open>The two blocks of the migration\<close>

lemma rename_absent: "map_of obj ''StressValues'' = None \<Longrightarrow> rename_rule obj = (obj, None)"
  by (simp add: rename_rule_def hasattr_def)

lemma rename_duplicate:
  "map_of obj ''StressValues'' = Some p \<Longrightarrow> map_of obj ''vonMises'' = Some q \<Longrightarrow>
     rename_rule obj = (obj, Some DuplicateAttributeError)"
  by (simp add: rename_rule_def hasattr_def addLockedProperty_def)

lemma rename_mismatch:
  "map_of obj ''StressValues'' = Some p \<Longrightarrow> map_of obj ''vonMises'' = None \<Longrightarrow>
     type_of (val p) \<noteq> PropertyFloatList \<Longrightarrow>
     rename_rule obj = (obj @ [(''vonMises'', vonMises_decl)], Some TypeMismatchError)"
  by (simp del: map_of_append add: rename_rule_def hasattr_def addLockedProperty_def getattr_def
      setattr_def map_of_snoc vonMises_decl_def)

lemma rename_ok:
  "map_of obj ''StressValues'' = Some p \<Longrightarrow> map_of obj ''vonMises'' = None \<Longrightarrow>
     type_of (val p) = PropertyFloatList \<Longrightarrow>
     rename_rule obj = (renamed obj (val p), None)"
  by (simp del: map_of_append add: rename_rule_def hasattr_def addLockedProperty_def getattr_def
      setattr_def setPropertyStatus_def removeProperty_def map_of_snoc map_of_update_first
      vonMises_decl_def renamed_def)

lemma rename_cases:
  obtains (absent) "map_of obj ''StressValues'' = None" "rename_rule obj = (obj, None)"
  | (duplicate) p q where "map_of obj ''StressValues'' = Some p" "map_of obj ''vonMises'' = Some q"
      "rename_rule obj = (obj, Some DuplicateAttributeError)"
  | (mismatch) p where "map_of obj ''StressValues'' = Some p" "map_of obj ''vonMises'' = None"
      "type_of (val p) \<noteq> PropertyFloatList"
      "rename_rule obj = (obj @ [(''vonMises'', vonMises_decl)], Some TypeMismatchError)"
  | (ok) p where "map_of obj ''StressValues'' = Some p" "map_of obj ''vonMises'' = None"
      "type_of (val p) = PropertyFloatList"
      "rename_rule obj = (renamed obj (val p), None)"
proof (cases "map_of obj ''StressValues''")
  case None
  then show ?thesis using absent rename_absent by blast
next
  case (Some p)
  show ?thesis
  proof (cases "map_of obj ''vonMises''")
    case None
    then show ?thesis using Some mismatch ok rename_mismatch rename_ok by blast
  next
    case (Some q)
    then show ?thesis using \<open>map_of obj ''StressValues'' = Some p\<close> duplicate rename_duplicate by blast
  qed
qed

lemma map_of_renamed:
  "map_of (renamed obj v) k =
     (if k = ''StressValues'' then None
      else if k = ''vonMises'' then
        (case map_of obj ''vonMises'' of Some q \<Rightarrow> Some (q\<lparr>val := v\<rparr>)
         | None \<Rightarrow> Some (vonMises_decl\<lparr>val := v\<rparr>))
      else map_of obj k)"
  by (auto simp del: map_of_append
      simp: renamed_def map_of_remove map_of_update_first map_of_snoc split: option.splits)

lemma renamed_update_Stats:
  assumes "map_of obj ''Stats'' \<noteq> None"
  shows "renamed (update_first ''Stats'' f obj) v = update_first ''Stats'' f (renamed obj v)"
proof -
  let ?e = "[(''vonMises'', vonMises_decl)]"
  let ?g = "\<lambda>q. q\<lparr>val := v\<rparr>" and ?h = "\<lambda>q. q\<lparr>locked := False\<rparr>"
  have "update_first ''Stats'' f (renamed obj v)
      = filter (\<lambda>kp. fst kp \<noteq> ''StressValues'')
          (update_first ''Stats'' f (update_first ''StressValues'' ?h
             (update_first ''vonMises'' ?g (obj @ ?e))))"
    unfolding renamed_def by (rule update_first_remove) simp
  also have "update_first ''Stats'' f (update_first ''StressValues'' ?h
             (update_first ''vonMises'' ?g (obj @ ?e)))
      = update_first ''StressValues'' ?h (update_first ''Stats'' f
             (update_first ''vonMises'' ?g (obj @ ?e)))"
    by (rule update_first_commute) simp
  also have "update_first ''Stats'' f (update_first ''vonMises'' ?g (obj @ ?e))
      = update_first ''vonMises'' ?g (update_first ''Stats'' f (obj @ ?e))"
    by (rule update_first_commute) simp
  also have "update_first ''Stats'' f (obj @ ?e) = update_first ''Stats'' f obj @ ?e"
    using assms by (rule update_first_snoc_present)
  finally show ?thesis unfolding renamed_def by simp
qed

lemma rename_rule_idem:
  "fst (rename_rule (fst (rename_rule obj))) = fst (rename_rule obj)"
proof (cases obj rule: rename_cases)
  case absent
  then show ?thesis by simp
next
  case (duplicate p q)
  then show ?thesis by simp
next
  case (mismatch p)
  then have "rename_rule (obj @ [(''vonMises'', vonMises_decl)])
      = (obj @ [(''vonMises'', vonMises_decl)], Some DuplicateAttributeError)"
    by (intro rename_duplicate [where p = p and q = vonMises_decl])
       (simp_all del: map_of_append add: map_of_snoc)
  with mismatch show ?thesis by simp
next
  case (ok p)
  then show ?thesis by (simp add: rename_absent map_of_renamed)
qed

lemma rename_rule_done:
  "rename_rule obj = (s, None) \<Longrightarrow> map_of s ''StressValues'' = None"
  by (cases obj rule: rename_cases) (auto simp: map_of_renamed)

lemma rename_rule_Stats: "map_of (fst (rename_rule obj)) ''Stats'' = map_of obj ''Stats''"
  by (cases obj rule: rename_cases) (auto simp del: map_of_append simp: map_of_renamed map_of_snoc split: option.splits)

lemma rename_ready_iff: "snd (rename_rule obj) = None \<longleftrightarrow> rename_ready obj"
  by (cases obj rule: rename_cases) (auto simp: rename_ready_def hasattr_def)

lemma getattr_after_rename:
  "getattr (fst (rename_rule obj)) ''Stats'' = getattr obj ''Stats''"
  by (simp add: getattr_def rename_rule_Stats)

lemma declared_after_rename:
  "declared_type (fst (rename_rule obj)) ''Stats'' = declared_type obj ''Stats''"
  by (simp add: declared_type_def rename_rule_Stats)

lemma shape_rule_outcome:
  "shape_rule obj =
     (case shape_outcome (map_of obj ''Stats'') of
        (None, r) \<Rightarrow> (obj, r)
      | (Some temp, r) \<Rightarrow> (update_first ''Stats'' (\<lambda>q. q\<lparr>val := temp\<rparr>) obj, r))"
  by (auto simp: shape_rule_def shape_outcome_def getattr_def setattr_def
      split: option.splits sum.splits)

lemma shape_outcome_Some:
  "shape_outcome e = (Some temp, r) \<Longrightarrow>
     r = None \<and> py_len temp = Inr 26 \<and> (\<exists>p. e = Some p \<and> type_of temp = semanticType p
       \<and> py_len (val p) = Inr 39 \<and> del_loop range_12_down (val p) = Inr temp)"
  by (auto simp: shape_outcome_def range_12_down_def split: option.splits sum.splits if_splits
      dest!: del_loop_len)

lemma shape_outcome_after:
  "shape_outcome (Some p) = (Some temp, r) \<Longrightarrow> shape_outcome (Some (p\<lparr>val := temp\<rparr>)) = (None, None)"
  by (frule shape_outcome_Some) (auto simp: shape_outcome_def)

lemma shape_rule_idem: "fst (shape_rule (fst (shape_rule obj))) = fst (shape_rule obj)"
proof (cases "shape_outcome (map_of obj ''Stats'')")
  case (Pair a r)
  show ?thesis
  proof (cases a)
    case None
    with Pair show ?thesis by (simp add: shape_rule_outcome)
  next
    case (Some temp)
    with Pair shape_outcome_Some obtain p where p: "map_of obj ''Stats'' = Some p" by blast
    with Pair Some have "shape_outcome (Some (p\<lparr>val := temp\<rparr>)) = (None, None)"
      using shape_outcome_after by simp
    with Pair Some p show ?thesis
      by (simp add: shape_rule_outcome map_of_update_first)
  qed
qed

lemma shape_rule_other:
  "k \<noteq> ''Stats'' \<Longrightarrow> map_of (fst (shape_rule obj)) k = map_of obj k"
  by (auto simp: shape_rule_outcome map_of_update_first split: prod.splits option.splits)

lemma shape_rule_floats:
  assumes "getattr s ''Stats'' = Inr (VFloatList xs)" and "length xs = 39"
    and "declared_type s ''Stats'' = Some PropertyFloatList"
  shows "shape_rule s = (update_first ''Stats'' (\<lambda>q. q\<lparr>val := VFloatList (nths xs {i. i mod 3 \<noteq> 1})\<rparr>) s, None)"
proof -
  from assms(1,3) obtain p where p: "map_of s ''Stats'' = Some p" "val p = VFloatList xs"
      "semanticType p = PropertyFloatList"
    by (auto simp: getattr_def declared_type_def split: option.splits)
  have "del_loop range_12_down (VFloatList xs) = Inr (VFloatList (nths xs {i. i mod 3 \<noteq> 1}))"
    using del_loop_partial [OF assms(2), of 0] by (simp add: range_12_down_def)
  with p assms(2) show ?thesis
    by (simp add: shape_rule_outcome shape_outcome_def)
qed

lemma pass_twice:
  "fst (onDocumentRestored (fst (onDocumentRestored obj))) = fst (onDocumentRestored obj)
   \<and> (\<forall>s. onDocumentRestored obj = (s, None) \<longrightarrow>
         \<not> hasattr s ''StressValues''
         \<and> (\<forall>v. getattr s ''Stats'' = Inr v \<longrightarrow> py_len v \<noteq> Inr 39)
         \<and> onDocumentRestored s = (s, None))"
proof (cases "rename_rule obj")
  case (Pair o1 r)
  show ?thesis
  proof (cases r)
    case (Some e)
    with Pair have od: "onDocumentRestored obj = (o1, Some e)"
      by (simp add: onDocumentRestored_def seq_def)
    from rename_rule_idem [of obj] Pair have "fst (rename_rule o1) = o1" by simp
    moreover have "snd (rename_rule o1) \<noteq> None"
    proof
      assume "snd (rename_rule o1) = None"
      then have "rename_rule o1 = (fst (rename_rule o1), None)" by (metis prod.collapse)
      from rename_rule_done [OF this] have n: "map_of o1 ''StressValues'' = None"
        using \<open>fst (rename_rule o1) = o1\<close> by simp
      show False
        using Pair Some n by (cases obj rule: rename_cases) (auto simp del: map_of_append simp: map_of_snoc)
    qed
    ultimately have "fst (onDocumentRestored o1) = o1"
      by (cases "rename_rule o1") (auto simp: onDocumentRestored_def seq_def)
    with od show ?thesis by simp
  next
    case None
    with Pair have od: "onDocumentRestored obj = shape_rule o1"
      by (simp add: onDocumentRestored_def seq_def)
    from Pair None have nsv: "map_of o1 ''StressValues'' = None"
      using rename_rule_done by simp
    obtain o2 r2 where sh: "shape_rule o1 = (o2, r2)" by (cases "shape_rule o1")
    have "map_of o2 ''StressValues'' = None"
      using shape_rule_other [of "''StressValues''" o1] sh nsv by simp
    then have rn2: "rename_rule o2 = (o2, None)" by (rule rename_absent)
    have idem: "fst (shape_rule o2) = o2"
      using shape_rule_idem [of o1] sh by simp
    have od2: "onDocumentRestored o2 = shape_rule o2"
      using rn2 by (simp add: onDocumentRestored_def seq_def)
    have part1: "fst (onDocumentRestored (fst (onDocumentRestored obj))) = fst (onDocumentRestored obj)"
      using od sh od2 idem by simp
    have part2: "\<not> hasattr o2 ''StressValues''"
      using \<open>map_of o2 ''StressValues'' = None\<close> by (simp add: hasattr_def)
    have part3: "r2 = None \<Longrightarrow> getattr o2 ''Stats'' = Inr v \<Longrightarrow> py_len v \<noteq> Inr 39" for v
    proof -
      assume r2: "r2 = None" and g: "getattr o2 ''Stats'' = Inr v"
      obtain a r' where so: "shape_outcome (map_of o1 ''Stats'') = (a, r')"
        by (cases "shape_outcome (map_of o1 ''Stats'')")
      show ?thesis
      proof (cases a)
        case None
        with so sh have "o2 = o1" "r' = r2" by (simp_all add: shape_rule_outcome)
        with so None r2 g show ?thesis
          by (auto simp: shape_outcome_def getattr_def split: option.splits sum.splits if_splits)
      next
        case (Some temp)
        with so sh have o2: "o2 = update_first ''Stats'' (\<lambda>q. q\<lparr>val := temp\<rparr>) o1"
          by (simp add: shape_rule_outcome)
        from shape_outcome_Some so Some have "py_len temp = Inr 26" by blast
        with g o2 show ?thesis
          by (auto simp: getattr_def map_of_update_first split: option.splits)
      qed
    qed
    have part4: "r2 = None \<Longrightarrow> shape_rule o2 = (o2, None)"
    proof -
      assume r2: "r2 = None"
      obtain a r' where so: "shape_outcome (map_of o2 ''Stats'') = (a, r')"
        by (cases "shape_outcome (map_of o2 ''Stats'')")
      have "a = None \<and> r' = None"
      proof (cases "map_of o2 ''Stats''")
        case None
        then have "map_of o1 ''Stats'' = None"
          using sh by (auto simp: shape_rule_outcome map_of_update_first split: prod.splits option.splits)
        then show ?thesis using sh r2 by (simp add: shape_rule_outcome shape_outcome_def)
      next
        case (Some p)
        then obtain v where g: "getattr o2 ''Stats'' = Inr v" and v: "v = val p"
          by (simp add: getattr_def)
        from part3 [OF r2 g] have ne: "py_len (val p) \<noteq> Inr 39" using v by simp
        obtain a1 r1 where so1: "shape_outcome (map_of o1 ''Stats'') = (a1, r1)"
          by (cases "shape_outcome (map_of o1 ''Stats'')")
        show ?thesis
        proof (cases a1)
          case None
          with so1 sh have "o2 = o1" "r1 = r2" by (simp_all add: shape_rule_outcome)
          with so1 so r2 None show ?thesis by simp
        next
          case (Some temp)
          then obtain p1 where p1: "map_of o1 ''Stats'' = Some p1"
            using shape_outcome_Some so1 by blast
          with so1 sh Some have o2: "o2 = update_first ''Stats'' (\<lambda>q. q\<lparr>val := temp\<rparr>) o1"
            by (simp add: shape_rule_outcome)
          have "shape_outcome (Some (p1\<lparr>val := temp\<rparr>)) = (None, None)"
            using shape_outcome_after so1 Some p1 by simp
          with so o2 p1 show ?thesis by (simp add: map_of_update_first)
        qed
      qed
      with so show ?thesis by (simp add: shape_rule_outcome)
    qed
    show ?thesis
      using part1 part2 part3 part4 od sh od2 by auto
  qed
qed

lemma pass_floats:
  assumes "getattr obj ''Stats'' = Inr (VFloatList xs)" and "length xs = 39"
    and "declared_type obj ''Stats'' = Some PropertyFloatList" and "rename_ready obj"
  shows "snd (onDocumentRestored obj) = None \<and>
     getattr (fst (onDocumentRestored obj)) ''Stats'' = Inr (VFloatList (nths xs {i. i mod 3 \<noteq> 1}))"
proof -
  obtain o1 where r: "rename_rule obj = (o1, None)"
    using assms(4) rename_ready_iff [of obj] by (cases "rename_rule obj") auto
  have g: "getattr o1 ''Stats'' = Inr (VFloatList xs)"
    using getattr_after_rename [of obj] r assms(1) by simp
  have d: "declared_type o1 ''Stats'' = Some PropertyFloatList"
    using declared_after_rename [of obj] r assms(3) by simp
  have "onDocumentRestored obj = shape_rule o1"
    using r by (simp add: onDocumentRestored_def seq_def)
  with shape_rule_floats [OF g assms(2) d] g show ?thesis
    by (auto simp: getattr_def map_of_update_first split: option.splits)
qed

subsection \<open>Blocks of statements\<close>

lemma run_preserves:
  "run fs s = (s', r) \<Longrightarrow> \<forall>f\<in>set fs. preserves P f \<Longrightarrow> P s \<Longrightarrow> P s'"
proof (induction fs arbitrary: s)
  case Nil
  then show ?case by simp
next
  case (Cons f fs)
  show ?case
  proof (cases "f s")
    case (Inl e)
    with Cons.prems show ?thesis by simp
  next
    case (Inr s1)
    with Cons.prems have "run fs s1 = (s', r)" "P s1"
      by (auto simp: preserves_def)
    with Cons.IH Cons.prems(2) show ?thesis by simp
  qed
qed

lemma run_append_None:
  "run (pre @ post) s = (s', None) \<longleftrightarrow> (\<exists>s1. run pre s = (s1, None) \<and> run post s1 = (s', None))"
  by (induction pre arbitrary: s) (auto split: sum.splits)

lemma run_establish:
  assumes "run fs s0 = (s, None)" and "fs = pre @ f # post"
    and "\<And>s1 s2. f s1 = Inr s2 \<Longrightarrow> P s2" and "\<forall>g\<in>set post. preserves P g"
  shows "P s"
proof -
  from assms(1,2) obtain s1 where "run (f # post) s1 = (s, None)"
    by (auto simp: run_append_None)
  then obtain s2 where "f s1 = Inr s2" "run post s2 = (s, None)"
    by (auto split: sum.splits)
  with assms(3,4) run_preserves show ?thesis by blast
qed

lemma run_establish_nth:
  assumes "run fs s0 = (s, None)" and "i < length fs"
    and "\<And>s1 s2. (fs ! i) s1 = Inr s2 \<Longrightarrow> P s2"
    and "\<forall>g\<in>set (drop (Suc i) fs). preserves P g"
  shows "P s"
  using assms(1) id_take_nth_drop [OF assms(2)] assms(3,4) by (rule run_establish)

lemma add_preserves_entry:
  "preserves (has_entry k Q) (\<lambda>ob. addLockedProperty ob t n g d ro)"
  by (auto simp del: map_of_append
      simp: preserves_def has_entry_def addLockedProperty_def hasattr_def map_of_snoc
      split: option.splits if_splits)

lemma setattr_preserves_entry:
  "n \<noteq> k \<Longrightarrow> preserves (has_entry k Q) (\<lambda>ob. setattr ob n v)"
  by (auto simp: preserves_def has_entry_def setattr_def map_of_update_first
      split: option.splits if_splits)

lemma setattr_preserves_static:
  "(\<And>p w. Q (p\<lparr>val := w\<rparr>) = Q p) \<Longrightarrow> preserves (has_entry k Q) (\<lambda>ob. setattr ob n v)"
  by (auto simp: preserves_def has_entry_def setattr_def map_of_update_first
      split: option.splits if_splits)

lemma setattr_establishes:
  "setattr s1 k v = Inr s2 \<Longrightarrow> has_entry k (\<lambda>p. val p = v) s2"
  by (auto simp: has_entry_def setattr_def map_of_update_first split: option.splits if_splits)

lemma add_establishes_decl:
  "addLockedProperty s1 t k g d ro = Inr s2 \<Longrightarrow>
     has_entry k (\<lambda>p. readOnly p = ro \<and> semanticType p = t) s2"
  by (auto simp del: map_of_append simp: has_entry_def addLockedProperty_def hasattr_def map_of_snoc
      split: option.splits if_splits)

lemma has_entry_val: "has_entry k (\<lambda>p. val p = v) s \<Longrightarrow> getattr s k = Inr v \<and> hasattr s k"
  by (auto simp: has_entry_def getattr_def hasattr_def split: option.splits)

subsection \<open>What the constructors establish\<close>

lemma init_Stats:
  assumes "ResultMechanical_init obj = (s, None)"
  shows "has_entry ''Stats'' (\<lambda>p. val p = VFloatList zero_list) s"
  by (rule run_establish_nth [where i = 37, OF assms [unfolded ResultMechanical_init_def]])
     (simp_all add: setattr_establishes)

lemma init_ResultType_val:
  assumes "ResultMechanical_init obj = (s, None)"
  shows "has_entry ''ResultType'' (\<lambda>p. val p = VString ResultMechanical_Type) s"
  by (rule run_establish_nth [where i = 1, OF assms [unfolded ResultMechanical_init_def]])
     (simp_all add: setattr_establishes add_preserves_entry setattr_preserves_entry)

lemma init_ResultType_decl:
  assumes "ResultMechanical_init obj = (s, None)"
  shows "has_entry ''ResultType'' (\<lambda>p. readOnly p \<and> semanticType p = PropertyString) s"
  by (rule run_establish_nth [where i = 0, OF assms [unfolded ResultMechanical_init_def]])
     (simp_all add: add_establishes_decl [where ro = True, simplified] add_preserves_entry
        setattr_preserves_static)

lemma init_CalculateCurrentDensity:
  assumes "Magnetodynamic_init obj = (s, None)"
  shows "has_entry ''CalculateCurrentDensity'' (\<lambda>p. val p = VBool False) s"
  by (rule run_establish_nth [where i = 25, OF assms [unfolded Magnetodynamic_init_def]])
     (simp_all add: setattr_establishes setattr_preserves_entry)

lemma init_CalculateElectricField:
  assumes "Magnetodynamic_init obj = (s, None)"
  shows "has_entry ''CalculateElectricField'' (\<lambda>p. val p = VBool False) s"
  by (rule run_establish_nth [where i = 26, OF assms [unfolded Magnetodynamic_init_def]])
     (simp_all add: setattr_establishes setattr_preserves_entry)

lemma init_CalculateElementalFields:
  assumes "Magnetodynamic_init obj = (s, None)"
  shows "has_entry ''CalculateElementalFields'' (\<lambda>p. val p = VBool False) s"
  by (rule run_establish_nth [where i = 27, OF assms [unfolded Magnetodynamic_init_def]])
     (simp_all add: setattr_establishes setattr_preserves_entry)

lemma init_CalculateHarmonicLoss:
  assumes "Magnetodynamic_init obj = (s, None)"
  shows "has_entry ''CalculateHarmonicLoss'' (\<lambda>p. val p = VBool False) s"
  by (rule run_establish_nth [where i = 28, OF assms [unfolded Magnetodynamic_init_def]])
     (simp_all add: setattr_establishes setattr_preserves_entry)

lemma init_CalculateJouleHeating:
  assumes "Magnetodynamic_init obj = (s, None)"
  shows "has_entry ''CalculateJouleHeating'' (\<lambda>p. val p = VBool False) s"
  by (rule run_establish_nth [where i = 29, OF assms [unfolded Magnetodynamic_init_def]])
     (simp_all add: setattr_establishes setattr_preserves_entry)

lemma init_CalculateMagneticFieldStrength:
  assumes "Magnetodynamic_init obj = (s, None)"
  shows "has_entry ''CalculateMagneticFieldStrength'' (\<lambda>p. val p = VBool False) s"
  by (rule run_establish_nth [where i = 30, OF assms [unfolded Magnetodynamic_init_def]])
     (simp_all add: setattr_establishes setattr_preserves_entry)

lemma init_CalculateMaxwellStress:
  assumes "Magnetodynamic_init obj = (s, None)"
  shows "has_entry ''CalculateMaxwellStress'' (\<lambda>p. val p = VBool False) s"
  by (rule run_establish_nth [where i = 31, OF assms [unfolded Magnetodynamic_init_def]])
     (simp_all add: setattr_establishes setattr_preserves_entry)

lemma init_CalculateNodalFields:
  assumes "Magnetodynamic_init obj = (s, None)"
  shows "has_entry ''CalculateNodalFields'' (\<lambda>p. val p = VBool True) s"
  by (rule run_establish_nth [where i = 32, OF assms [unfolded Magnetodynamic_init_def]])
     (simp_all add: setattr_establishes setattr_preserves_entry)

lemma init_CalculateNodalForces:
  assumes "Magnetodynamic_init obj = (s, None)"
  shows "has_entry ''CalculateNodalForces'' (\<lambda>p. val p = VBool False) s"
  by (rule run_establish_nth [where i = 33, OF assms [unfolded Magnetodynamic_init_def]])
     (simp_all add: setattr_establishes setattr_preserves_entry)

lemma init_CalculateNodalHeating:
  assumes "Magnetodynamic_init obj = (s, None)"
  shows "has_entry ''CalculateNodalHeating'' (\<lambda>p. val p = VBool False) s"
  by (rule run_establish_nth [where i = 34, OF assms [unfolded Magnetodynamic_init_def]])
     (simp_all add: setattr_establishes setattr_preserves_entry)

lemma init_DiscontinuousBodies:
  assumes "Magnetodynamic_init obj = (s, None)"
  shows "has_entry ''DiscontinuousBodies'' (\<lambda>p. val p = VBool False) s"
  by (rule run_establish_nth [where i = 35, OF assms [unfolded Magnetodynamic_init_def]])
     (simp_all add: setattr_establishes setattr_preserves_entry)

lemma init_Priority:
  assumes "Magnetodynamic_init obj = (s, None)"
  shows "has_entry ''Priority'' (\<lambda>p. val p = VInteger 10) s"
  by (rule run_establish_nth [where i = 13, OF assms [unfolded Magnetodynamic_init_def]])
     (simp_all add: setattr_establishes setattr_preserves_entry add_preserves_entry)

subsection \<open>The resolver\<close>

lemma set_insert_by_priority: "set (insert_by_priority key x ys) = insert x (set ys)"
  by (induction ys) auto

lemma sorted_insert_by_priority:
  "sorted (map key ys) \<Longrightarrow> sorted (map key (insert_by_priority key x ys))"
  by (induction ys) (auto simp: set_insert_by_priority)

lemma mset_insert_by_priority: "mset (insert_by_priority key x ys) = add_mset x (mset ys)"
  by (induction ys) auto

lemma filter_insert_by_priority:
  "sorted (map key ys) \<Longrightarrow>
     filter (\<lambda>z. key z = p) (insert_by_priority key x ys)
       = filter (\<lambda>z. key z = p) ys @ (if key x = p then [x] else [])"
proof (induction ys)
  case Nil
  then show ?case by simp
next
  case (Cons y ys)
  show ?case
  proof (cases "key x < key y")
    case True
    with Cons.prems have "\<forall>z\<in>set (y # ys). key x < key z" by auto
    then have "filter (\<lambda>z. key z = key x) (y # ys) = []"
      by (auto simp: filter_empty_conv)
    with True show ?thesis by auto
  next
    case False
    with Cons show ?thesis by simp
  qed
qed

lemma foldl_insert_facts:
  "sorted (map key acc) \<Longrightarrow>
     sorted (map key (foldl (\<lambda>a x. insert_by_priority key x a) acc xs))
     \<and> mset (foldl (\<lambda>a x. insert_by_priority key x a) acc xs) = mset acc + mset xs
     \<and> filter (\<lambda>z. key z = p) (foldl (\<lambda>a x. insert_by_priority key x a) acc xs)
         = filter (\<lambda>z. key z = p) acc @ filter (\<lambda>z. key z = p) xs"
proof (induction xs arbitrary: acc)
  case Nil
  then show ?case by simp
next
  case (Cons x xs)
  from Cons.prems have s: "sorted (map key (insert_by_priority key x acc))"
    by (rule sorted_insert_by_priority)
  from Cons.IH [OF s] show ?case
    by (simp add: mset_insert_by_priority filter_insert_by_priority [OF Cons.prems])
qed

subsection \<open>The concrete objects\<close>

lemma init_host_ok: "snd (ResultMechanical_init host_result_object) = None"
  by code_simp

lemma md_host_ok: "snd (Magnetodynamic_init host_equation_object) = None"
  by code_simp

lemma legacy_pass_ok: "snd (onDocumentRestored legacy_result_object) = None"
  by code_simp

lemma legacy_hyps:
  "getattr legacy_result_object ''Stats'' = Inr (VFloatList legacy_stats)"
  "length legacy_stats = 39"
  "declared_type legacy_result_object ''Stats'' = Some PropertyFloatList"
  "rename_ready legacy_result_object"
  "getattr legacy_result_object ''StressValues'' = Inr (VFloatList [7, 8, 9])"
  "\<not> hasattr legacy_result_object ''vonMises''"
  by (simp_all add: legacy_result_object_def legacy_stats_def getattr_def declared_type_def
      rename_ready_def hasattr_def)

lemma legacy_rules_ok:
  "snd (rename_rule legacy_result_object) = None" "snd (shape_rule legacy_result_object) = None"
  by code_simp+

subsection \<open>The claims\<close>

text \<open>
  C1 (idempotence of the migration). For every object, the store after two passes of
  \<^verbatim>\<open>onDocumentRestored\<close> is the store after one pass, also when a pass raises. When the
  first pass raises nothing, StressValues is absent afterwards, the guard
  \<^verbatim>\<open>len(obj.Stats) == 39\<close> is false, and the second pass changes nothing and raises nothing.
\<close>

theorem migration_idempotent:
  "fst (onDocumentRestored (fst (onDocumentRestored obj))) = fst (onDocumentRestored obj)
   \<and> (snd (onDocumentRestored obj) = None \<longrightarrow>
         \<not> hasattr (fst (onDocumentRestored obj)) ''StressValues''
         \<and> \<not> stats_shape_matches (fst (onDocumentRestored obj))
         \<and> onDocumentRestored (fst (onDocumentRestored obj)) = (fst (onDocumentRestored obj), None))"
  using pass_twice [of obj] pair_collapse_None [of "onDocumentRestored obj"]
  by (auto simp: stats_shape_matches_def split: sum.splits)

theorem migration_idempotent_witness:
  "snd (onDocumentRestored legacy_result_object) = None
   \<and> hasattr legacy_result_object ''StressValues''
   \<and> stats_shape_matches legacy_result_object
   \<and> \<not> hasattr (fst (onDocumentRestored legacy_result_object)) ''StressValues''
   \<and> \<not> stats_shape_matches (fst (onDocumentRestored legacy_result_object))
   \<and> onDocumentRestored (fst (onDocumentRestored legacy_result_object))
       = (fst (onDocumentRestored legacy_result_object), None)"
proof -
  have "hasattr legacy_result_object ''StressValues''"
    by (simp add: legacy_result_object_def hasattr_def)
  moreover have "stats_shape_matches legacy_result_object"
    using legacy_hyps(1,2) by (simp add: stats_shape_matches_def)
  ultimately show ?thesis
    using migration_idempotent [of legacy_result_object] legacy_pass_ok by blast
qed

text \<open>
  C2, amended (shape reduction). For every object whose Stats attribute is declared a float
  list and holds 39 entries, and on which the rename block raises no error (StressValues is
  absent, or it holds a float list while vonMises is not declared yet), the pass raises
  nothing and leaves in Stats the entries at the indices not congruent to 1 modulo 3, in
  their order: 26 entries, entry 2j being the old entry 3j and entry 2j+1 the old entry
  3j+2. The loop runs from the last triple to the first: after the triples 12 down to k,
  the first 3k entries are as they were and the rest is reduced.
\<close>

theorem shape_reduction_correct:
  assumes "getattr obj ''Stats'' = Inr (VFloatList xs)" and "length xs = 39"
    and "declared_type obj ''Stats'' = Some PropertyFloatList" and "rename_ready obj"
  shows "snd (onDocumentRestored obj) = None
     \<and> getattr (fst (onDocumentRestored obj)) ''Stats'' = Inr (VFloatList (nths xs {i. i mod 3 \<noteq> 1}))
     \<and> length (nths xs {i. i mod 3 \<noteq> 1}) = 26
     \<and> (\<forall>j<13. nths xs {i. i mod 3 \<noteq> 1} ! (2 * j) = xs ! (3 * j)
               \<and> nths xs {i. i mod 3 \<noteq> 1} ! (2 * j + 1) = xs ! (3 * j + 2))
     \<and> (\<forall>k\<le>13. del_loop (rev [k..<13]) (VFloatList xs)
               = Inr (VFloatList (take (3 * k) xs @ nths (drop (3 * k) xs) {i. i mod 3 \<noteq> 1})))"
  using pass_floats [OF assms] nths_facts [OF assms(2)] del_loop_partial [OF assms(2)]
  by simp

theorem shape_reduction_correct_witness:
  "getattr legacy_result_object ''Stats'' = Inr (VFloatList legacy_stats)
   \<and> length legacy_stats = 39
   \<and> snd (onDocumentRestored legacy_result_object) = None
   \<and> getattr (fst (onDocumentRestored legacy_result_object)) ''Stats''
       = Inr (VFloatList [1, 3, 4, 6, 7, 9, 10, 12, 13, 15, 16, 18, 19, 21, 22, 24, 25, 27,
                          28, 30, 31, 33, 34, 36, 37, 39])"
proof -
  have "nths legacy_stats {i. i mod 3 \<noteq> 1}
      = [1, 3, 4, 6, 7, 9, 10, 12, 13, 15, 16, 18, 19, 21, 22, 24, 25, 27,
                          28, 30, 31, 33, 34, 36, 37, 39]"
    by (simp add: legacy_stats_def nths_Cons)
  then show ?thesis
    using shape_reduction_correct [OF legacy_hyps(1-4)] legacy_hyps(1,2) by simp
qed

text \<open>
  C2 as stated fails on an object whose Stats holds 39 entries while the rename block
  raises: the pass stops before the second block is reached, and Stats keeps its 39
  entries.
\<close>

theorem shape_unreached_counterexample:
  "getattr doubly_declared_object ''Stats'' = Inr (VFloatList legacy_stats)
   \<and> declared_type doubly_declared_object ''Stats'' = Some PropertyFloatList
   \<and> length legacy_stats = 39
   \<and> onDocumentRestored doubly_declared_object
       = (doubly_declared_object, Some DuplicateAttributeError)
   \<and> getattr (fst (onDocumentRestored doubly_declared_object)) ''Stats''
       = Inr (VFloatList legacy_stats)
   \<and> length legacy_stats \<noteq> 26"
proof -
  have "onDocumentRestored doubly_declared_object
       = (doubly_declared_object, Some DuplicateAttributeError)"
    by (simp add: onDocumentRestored_def seq_def rename_rule_def doubly_declared_object_def
        hasattr_def addLockedProperty_def)
  moreover have "getattr doubly_declared_object ''Stats'' = Inr (VFloatList legacy_stats)"
    and "declared_type doubly_declared_object ''Stats'' = Some PropertyFloatList"
    by (simp_all add: doubly_declared_object_def getattr_def declared_type_def)
  ultimately show ?thesis using legacy_hyps(2) by simp
qed

text \<open>
  C3, amended (loss-freedom of the rename). For every object in which StressValues holds a
  float list v and vonMises is not declared yet, the rename block raises nothing, and after
  the pass StressValues is absent and vonMises is present exactly as the block declares it
  (a locked, read-only float list of the group NodeData) with the value v.
\<close>

theorem rename_loss_free:
  assumes "getattr obj ''StressValues'' = Inr (VFloatList v)" and "\<not> hasattr obj ''vonMises''"
  shows "snd (rename_rule obj) = None
     \<and> getattr (fst (onDocumentRestored obj)) ''vonMises'' = Inr (VFloatList v)
     \<and> \<not> hasattr (fst (onDocumentRestored obj)) ''StressValues''
     \<and> declared_type (fst (onDocumentRestored obj)) ''vonMises'' = Some PropertyFloatList
     \<and> map_of (fst (onDocumentRestored obj)) ''vonMises''
         = Some \<lparr>semanticType = PropertyFloatList, group = ''NodeData'',
                  doc = ''List of von Mises equivalent stresses'', readOnly = True,
                  hidden = False, locked = True, val = VFloatList v\<rparr>"
proof -
  from assms obtain p where p: "map_of obj ''StressValues'' = Some p" "val p = VFloatList v"
    and nv: "map_of obj ''vonMises'' = None"
    by (auto simp: getattr_def hasattr_def split: option.splits)
  then have r: "rename_rule obj = (renamed obj (VFloatList v), None)"
    using rename_ok [of obj p] by simp
  then have od: "fst (onDocumentRestored obj) = fst (shape_rule (renamed obj (VFloatList v)))"
    by (simp add: onDocumentRestored_def seq_def)
  have "map_of (fst (onDocumentRestored obj)) ''vonMises''
      = Some (vonMises_decl\<lparr>val := VFloatList v\<rparr>)"
    using shape_rule_other [of "''vonMises''" "renamed obj (VFloatList v)"] nv
    by (simp add: od map_of_renamed)
  moreover have "map_of (fst (onDocumentRestored obj)) ''StressValues'' = None"
    using shape_rule_other [of "''StressValues''" "renamed obj (VFloatList v)"]
    by (simp add: od map_of_renamed)
  ultimately show ?thesis using r
    by (simp add: getattr_def hasattr_def declared_type_def vonMises_decl_def)
qed

theorem rename_loss_free_witness:
  "getattr legacy_result_object ''StressValues'' = Inr (VFloatList [7, 8, 9])
   \<and> \<not> hasattr legacy_result_object ''vonMises''
   \<and> getattr (fst (onDocumentRestored legacy_result_object)) ''vonMises'' = Inr (VFloatList [7, 8, 9])
   \<and> \<not> hasattr (fst (onDocumentRestored legacy_result_object)) ''StressValues''
   \<and> map_option readOnly (map_of (fst (onDocumentRestored legacy_result_object)) ''vonMises'')
       = Some True"
  using rename_loss_free [OF legacy_hyps(5,6)] legacy_hyps(5,6) by simp

text \<open>
  C3 as stated fails on an object that carries StressValues and already has vonMises: the
  declaration of vonMises raises DuplicateAttributeError, StressValues stays and vonMises
  keeps its old value. It also fails on an object whose StressValues holds a value that is
  not a float list: the copy into the float list vonMises raises TypeMismatchError,
  StressValues stays and vonMises holds the empty list.
\<close>

theorem rename_duplicate_counterexample:
  "getattr doubly_declared_object ''StressValues'' = Inr (VFloatList [7, 8, 9])
   \<and> onDocumentRestored doubly_declared_object
       = (doubly_declared_object, Some DuplicateAttributeError)
   \<and> getattr (fst (onDocumentRestored doubly_declared_object)) ''vonMises'' = Inr (VFloatList [])
   \<and> getattr (fst (onDocumentRestored doubly_declared_object)) ''vonMises''
       \<noteq> Inr (VFloatList [7, 8, 9])
   \<and> hasattr (fst (onDocumentRestored doubly_declared_object)) ''StressValues''
   \<and> getattr mistyped_legacy_object ''StressValues'' = Inr (VString ''abc'')
   \<and> \<not> hasattr mistyped_legacy_object ''vonMises''
   \<and> snd (onDocumentRestored mistyped_legacy_object) = Some TypeMismatchError
   \<and> getattr (fst (onDocumentRestored mistyped_legacy_object)) ''vonMises'' = Inr (VFloatList [])
   \<and> getattr (fst (onDocumentRestored mistyped_legacy_object)) ''vonMises''
       \<noteq> Inr (VString ''abc'')
   \<and> hasattr (fst (onDocumentRestored mistyped_legacy_object)) ''StressValues''"
proof -
  have a: "onDocumentRestored doubly_declared_object
       = (doubly_declared_object, Some DuplicateAttributeError)"
    by (simp add: onDocumentRestored_def seq_def rename_rule_def doubly_declared_object_def
        hasattr_def addLockedProperty_def)
  have "rename_rule mistyped_legacy_object
      = (mistyped_legacy_object @ [(''vonMises'', vonMises_decl)], Some TypeMismatchError)"
    by (rule rename_mismatch [where p = "\<lparr>semanticType = PropertyString, group = ''NodeData'',
         doc = [], readOnly = True, hidden = False, locked = False, val = VString ''abc''\<rparr>"])
       (simp_all add: mistyped_legacy_object_def)
  then have b: "onDocumentRestored mistyped_legacy_object
      = (mistyped_legacy_object @ [(''vonMises'', vonMises_decl)], Some TypeMismatchError)"
    by (simp add: onDocumentRestored_def seq_def)
  have c: "getattr (mistyped_legacy_object @ [(''vonMises'', vonMises_decl)]) ''vonMises''
        = Inr (VFloatList [])"
      "hasattr (mistyped_legacy_object @ [(''vonMises'', vonMises_decl)]) ''StressValues''"
      "getattr mistyped_legacy_object ''StressValues'' = Inr (VString ''abc'')"
      "\<not> hasattr mistyped_legacy_object ''vonMises''"
    by (simp_all add: mistyped_legacy_object_def getattr_def hasattr_def vonMises_decl_def)
  from a b c show ?thesis
    by (simp add: doubly_declared_object_def getattr_def hasattr_def)
qed

text \<open>
  C4 (forward safety). On an object without StressValues whose Stats has a length other
  than 39, the pass returns the object unchanged and raises nothing.
\<close>

theorem forward_safety:
  assumes "\<not> hasattr obj ''StressValues''" and "getattr obj ''Stats'' = Inr v"
    and "py_len v = Inr n" and "n \<noteq> 39"
  shows "onDocumentRestored obj = (obj, None)"
proof -
  from assms(1) have "rename_rule obj = (obj, None)"
    by (simp add: rename_rule_def)
  moreover from assms(2-4) have "shape_rule obj = (obj, None)"
    by (simp add: shape_rule_def)
  ultimately show ?thesis by (simp add: onDocumentRestored_def seq_def)
qed

theorem forward_safety_witness:
  "\<not> hasattr (fst (ResultMechanical_init host_result_object)) ''StressValues''
   \<and> getattr (fst (ResultMechanical_init host_result_object)) ''Stats'' = Inr (VFloatList zero_list)
   \<and> py_len (VFloatList zero_list) = Inr 26
   \<and> onDocumentRestored (fst (ResultMechanical_init host_result_object))
       = (fst (ResultMechanical_init host_result_object), None)"
proof -
  have h1: "\<not> hasattr (fst (ResultMechanical_init host_result_object)) ''StressValues''"
    by code_simp
  have h2: "getattr (fst (ResultMechanical_init host_result_object)) ''Stats'' = Inr (VFloatList zero_list)"
    using init_Stats [OF pair_collapse_None [OF init_host_ok]] by (simp add: has_entry_val)
  have h3: "py_len (VFloatList zero_list) = Inr 26" by (simp add: zero_list_def)
  have h4: "(26::nat) \<noteq> 39" by simp
  from forward_safety [OF h1 h2 h3 h4] h1 h2 h3 show ?thesis by simp
qed

text \<open>
  C5, amended (order of the rules). On every object on which neither block raises, the two
  blocks in the opposite order give the same store as \<^verbatim>\<open>onDocumentRestored\<close>, and no
  error.
\<close>

theorem rules_commute:
  assumes "snd (rename_rule obj) = None" and "snd (shape_rule obj) = None"
  shows "shape_then_rename obj = onDocumentRestored obj \<and> snd (onDocumentRestored obj) = None"
proof -
  obtain a r where so: "shape_outcome (map_of obj ''Stats'') = (a, r)"
    by (cases "shape_outcome (map_of obj ''Stats'')")
  with assms(2) have rN: "r = None"
    by (auto simp: shape_rule_outcome split: option.splits)
  define o2 where "o2 = (case a of None \<Rightarrow> obj
      | Some temp \<Rightarrow> update_first ''Stats'' (\<lambda>q. q\<lparr>val := temp\<rparr>) obj)"
  have sh: "shape_rule obj = (o2, None)"
    using so rN by (simp add: shape_rule_outcome o2_def split: option.splits)
  have keys: "map_of o2 k = map_of obj k" if "k \<noteq> ''Stats''" for k
    using shape_rule_other [OF that, of obj] sh by simp
  from assms(1) show ?thesis
  proof (cases obj rule: rename_cases)
    case absent
    then have "rename_rule o2 = (o2, None)"
      using keys [of "''StressValues''"] by (simp add: rename_absent)
    with absent sh show ?thesis
      by (simp add: shape_then_rename_def onDocumentRestored_def seq_def)
  next
    case (ok p)
    have "rename_rule o2 = (renamed o2 (val p), None)"
      using ok keys [of "''StressValues''"] keys [of "''vonMises''"] rename_ok [of o2 p] by simp
    then have lhs: "shape_then_rename obj = (renamed o2 (val p), None)"
      using sh by (simp add: shape_then_rename_def seq_def)
    have st: "map_of (renamed obj (val p)) ''Stats'' = map_of obj ''Stats''"
      by (simp add: map_of_renamed)
    have "shape_rule (renamed obj (val p)) = (renamed o2 (val p), None)"
    proof (cases a)
      case None
      with so rN st show ?thesis by (simp add: shape_rule_outcome o2_def)
    next
      case (Some temp)
      with so shape_outcome_Some have "map_of obj ''Stats'' \<noteq> None" by blast
      with Some so rN st show ?thesis
        by (simp add: shape_rule_outcome o2_def renamed_update_Stats)
    qed
    with ok lhs show ?thesis by (simp add: onDocumentRestored_def seq_def)
  qed simp_all
qed

theorem rules_commute_witness:
  "snd (rename_rule legacy_result_object) = None
   \<and> snd (shape_rule legacy_result_object) = None
   \<and> shape_then_rename legacy_result_object = onDocumentRestored legacy_result_object
   \<and> snd (onDocumentRestored legacy_result_object) = None"
  using rules_commute [OF legacy_rules_ok] legacy_rules_ok by simp

text \<open>
  C5 as stated fails on an object on which the rename block raises while Stats has 39
  entries: in the source's order Stats keeps its 39 entries, in the opposite order it is
  reduced before the error.
\<close>

theorem order_dependence_counterexample:
  "onDocumentRestored doubly_declared_object
     = (doubly_declared_object, Some DuplicateAttributeError)
   \<and> snd (shape_then_rename doubly_declared_object) = Some DuplicateAttributeError
   \<and> getattr (fst (onDocumentRestored doubly_declared_object)) ''Stats''
       = Inr (VFloatList legacy_stats)
   \<and> getattr (fst (shape_then_rename doubly_declared_object)) ''Stats''
       = Inr (VFloatList (nths legacy_stats {i. i mod 3 \<noteq> 1}))
   \<and> length (nths legacy_stats {i. i mod 3 \<noteq> 1}) \<noteq> length legacy_stats
   \<and> onDocumentRestored doubly_declared_object \<noteq> shape_then_rename doubly_declared_object"
proof -
  have a: "onDocumentRestored doubly_declared_object
       = (doubly_declared_object, Some DuplicateAttributeError)"
    by (simp add: onDocumentRestored_def seq_def rename_rule_def doubly_declared_object_def
        hasattr_def addLockedProperty_def)
  have g: "getattr doubly_declared_object ''Stats'' = Inr (VFloatList legacy_stats)"
    and d: "declared_type doubly_declared_object ''Stats'' = Some PropertyFloatList"
    by (simp_all add: doubly_declared_object_def getattr_def declared_type_def)
  note sh = shape_rule_floats [OF g legacy_hyps(2) d]
  let ?o2 = "update_first ''Stats''
      (\<lambda>q. q\<lparr>val := VFloatList (nths legacy_stats {i. i mod 3 \<noteq> 1})\<rparr>) doubly_declared_object"
  have "rename_rule ?o2 = (?o2, Some DuplicateAttributeError)"
    by (rule rename_duplicate) (simp_all add: map_of_update_first doubly_declared_object_def)
  with sh have b: "shape_then_rename doubly_declared_object = (?o2, Some DuplicateAttributeError)"
    by (simp add: shape_then_rename_def seq_def)
  have c: "getattr ?o2 ''Stats'' = Inr (VFloatList (nths legacy_stats {i. i mod 3 \<noteq> 1}))"
    by (simp add: getattr_def map_of_update_first doubly_declared_object_def)
  have l: "length (nths legacy_stats {i. i mod 3 \<noteq> 1}) \<noteq> length legacy_stats"
    using nths_facts(1) [OF legacy_hyps(2)] legacy_hyps(2) by simp
  have "getattr (fst (onDocumentRestored doubly_declared_object)) ''Stats''
      \<noteq> getattr (fst (shape_then_rename doubly_declared_object)) ''Stats''"
    using a b c g l by auto
  then have "onDocumentRestored doubly_declared_object \<noteq> shape_then_rename doubly_declared_object"
    by auto
  with a b c g l show ?thesis by simp
qed

text \<open>
  C6 (result toggles of the magnetodynamic equation). After a construction that raises
  nothing, CalculateNodalFields is True and each of the ten sibling toggles is False.
\<close>

theorem magnetodynamic_result_defaults:
  assumes "snd (Magnetodynamic_init obj) = None"
  shows "getattr (fst (Magnetodynamic_init obj)) ''CalculateNodalFields'' = Inr (VBool True)
     \<and> (\<forall>n\<in>set sibling_toggles. getattr (fst (Magnetodynamic_init obj)) n = Inr (VBool False))"
proof -
  note ok = pair_collapse_None [OF assms]
  show ?thesis
    using init_CalculateCurrentDensity [OF ok] init_CalculateElectricField [OF ok]
      init_CalculateElementalFields [OF ok] init_CalculateHarmonicLoss [OF ok]
      init_CalculateJouleHeating [OF ok] init_CalculateMagneticFieldStrength [OF ok]
      init_CalculateMaxwellStress [OF ok] init_CalculateNodalFields [OF ok]
      init_CalculateNodalForces [OF ok] init_CalculateNodalHeating [OF ok]
      init_DiscontinuousBodies [OF ok]
    by (simp add: sibling_toggles_def has_entry_val)
qed

theorem magnetodynamic_result_defaults_witness:
  "snd (Magnetodynamic_init host_equation_object) = None
   \<and> getattr (fst (Magnetodynamic_init host_equation_object)) ''CalculateNodalFields'' = Inr (VBool True)
   \<and> getattr (fst (Magnetodynamic_init host_equation_object)) ''CalculateJouleHeating'' = Inr (VBool False)"
  using magnetodynamic_result_defaults [OF md_host_ok] md_host_ok
  by (simp add: sibling_toggles_def)

text \<open>
  C7 (read-only enforcement). An external set of a read-only attribute fails with
  ReadOnlyViolationError whatever the value. After construction of a ResultMechanical
  object, ResultType is such an attribute, it holds the string Fem::ResultMechanical that
  the constructor assigned after declaring it, and the privileged write still succeeds on it.
\<close>

theorem read_only_enforced:
  "(map_of st n = Some p \<longrightarrow> readOnly p \<longrightarrow> set_external st n v = Inl ReadOnlyViolationError)
   \<and> (snd (ResultMechanical_init base) = None \<longrightarrow>
        set_external (fst (ResultMechanical_init base)) ''ResultType'' v = Inl ReadOnlyViolationError
        \<and> getattr (fst (ResultMechanical_init base)) ''ResultType'' = Inr (VString ''Fem::ResultMechanical'')
        \<and> (\<exists>s'. setattr (fst (ResultMechanical_init base)) ''ResultType'' (VString w) = Inr s'
              \<and> getattr s' ''ResultType'' = Inr (VString w)))"
proof (intro conjI impI)
  assume "map_of st n = Some p" and "readOnly p"
  then show "set_external st n v = Inl ReadOnlyViolationError"
    by (simp add: set_external_def)
next
  assume ok: "snd (ResultMechanical_init base) = None"
  let ?s = "fst (ResultMechanical_init base)"
  note init = pair_collapse_None [OF ok]
  from init_ResultType_decl [OF init] obtain q where q: "map_of ?s ''ResultType'' = Some q"
      "readOnly q" "semanticType q = PropertyString"
    by (auto simp: has_entry_def split: option.splits)
  show "set_external ?s ''ResultType'' v = Inl ReadOnlyViolationError"
    using q by (simp add: set_external_def)
  show "getattr ?s ''ResultType'' = Inr (VString ''Fem::ResultMechanical'')"
    using init_ResultType_val [OF init] has_entry_val by (simp add: ResultMechanical_Type_def)
  show "\<exists>s'. setattr ?s ''ResultType'' (VString w) = Inr s' \<and> getattr s' ''ResultType'' = Inr (VString w)"
    using q by (simp add: setattr_def getattr_def map_of_update_first)
qed

theorem read_only_enforced_witness:
  "snd (ResultMechanical_init host_result_object) = None
   \<and> set_external (fst (ResultMechanical_init host_result_object)) ''ResultType'' (VString ''other'')
       = Inl ReadOnlyViolationError
   \<and> getattr (fst (ResultMechanical_init host_result_object)) ''ResultType''
       = Inr (VString ''Fem::ResultMechanical'')
   \<and> set_external read_only_example ''ResultType'' (VString ''other'') = Inl ReadOnlyViolationError"
  using read_only_enforced [of read_only_example "''ResultType''"
      "\<lparr>semanticType = PropertyString, group = ''Base'',
      doc = ''Type of the result'', readOnly = True, hidden = False, locked = True,
      val = VString ''Fem::ResultMechanical''\<rparr>" "VString ''other''" host_result_object]
    init_host_ok
  by (simp add: read_only_example_def)

text \<open>
  C8 (priority ordering). The resolved order is ascending in the priority, it is a
  rearrangement of the declared instances, and instances of equal priority keep their
  declaration order; priorities 10, 5, 10 resolve to instance2, instance1, instance3. A
  magnetodynamic equation is constructed with Priority 10.
\<close>

theorem priority_ordering:
  "sorted (map key (resolve_order key xs))
   \<and> mset (resolve_order key xs) = mset xs
   \<and> filter (\<lambda>z. key z = p) (resolve_order key xs) = filter (\<lambda>z. key z = p) xs
   \<and> resolve_order snd three_equations = [(''instance2'', 5), (''instance1'', 10), (''instance3'', 10)]
   \<and> (snd (Magnetodynamic_init obj) = None \<longrightarrow>
        getattr (fst (Magnetodynamic_init obj)) ''Priority'' = Inr (VInteger 10))"
proof -
  have "resolve_order snd three_equations = [(''instance2'', 5), (''instance1'', 10), (''instance3'', 10)]"
    by (simp add: resolve_order_def three_equations_def)
  moreover have "snd (Magnetodynamic_init obj) = None \<longrightarrow>
        getattr (fst (Magnetodynamic_init obj)) ''Priority'' = Inr (VInteger 10)"
  proof
    assume "snd (Magnetodynamic_init obj) = None"
    from init_Priority [OF pair_collapse_None [OF this]]
    show "getattr (fst (Magnetodynamic_init obj)) ''Priority'' = Inr (VInteger 10)"
      by (simp add: has_entry_val)
  qed
  ultimately show ?thesis
    using foldl_insert_facts [of key "[]" xs p] by (simp add: resolve_order_def)
qed

theorem priority_ordering_witness:
  "snd (Magnetodynamic_init host_equation_object) = None
   \<and> getattr (fst (Magnetodynamic_init host_equation_object)) ''Priority'' = Inr (VInteger 10)
   \<and> resolve_order snd three_equations = [(''instance2'', 5), (''instance1'', 10), (''instance3'', 10)]"
  using priority_ordering [of snd three_equations 10 host_equation_object] md_host_ok
  by simp

text \<open>
  C9 (length of Stats). Construction leaves Stats as 26 zeros; the pass turns a well-formed
  39-entry float list into a list of exactly 26 entries, and leaves a 26-entry list as it is.
\<close>

theorem stats_length_invariant:
  "(snd (ResultMechanical_init base) = None \<longrightarrow>
      getattr (fst (ResultMechanical_init base)) ''Stats'' = Inr (VFloatList (replicate 26 0)))
   \<and> (getattr obj ''Stats'' = Inr (VFloatList xs) \<and> length xs = 39
        \<and> declared_type obj ''Stats'' = Some PropertyFloatList \<and> rename_ready obj \<longrightarrow>
        snd (onDocumentRestored obj) = None
        \<and> (\<exists>ys. getattr (fst (onDocumentRestored obj)) ''Stats'' = Inr (VFloatList ys)
              \<and> length ys = 26))
   \<and> (getattr obj ''Stats'' = Inr (VFloatList xs) \<and> length xs = 26 \<and> rename_ready obj \<longrightarrow>
        snd (onDocumentRestored obj) = None
        \<and> getattr (fst (onDocumentRestored obj)) ''Stats'' = Inr (VFloatList xs))"
proof (intro conjI impI)
  assume "snd (ResultMechanical_init base) = None"
  from init_Stats [OF pair_collapse_None [OF this]]
  show "getattr (fst (ResultMechanical_init base)) ''Stats'' = Inr (VFloatList (replicate 26 0))"
    using has_entry_val by (simp add: zero_list_def)
next
  assume a: "getattr obj ''Stats'' = Inr (VFloatList xs) \<and> length xs = 39
        \<and> declared_type obj ''Stats'' = Some PropertyFloatList \<and> rename_ready obj"
  then have p: "snd (onDocumentRestored obj) = None \<and>
     getattr (fst (onDocumentRestored obj)) ''Stats'' = Inr (VFloatList (nths xs {i. i mod 3 \<noteq> 1}))"
    using pass_floats by blast
  then show "snd (onDocumentRestored obj) = None" by simp
  show "\<exists>ys. getattr (fst (onDocumentRestored obj)) ''Stats'' = Inr (VFloatList ys) \<and> length ys = 26"
    using p a nths_facts(1) by blast
next
  assume a: "getattr obj ''Stats'' = Inr (VFloatList xs) \<and> length xs = 26 \<and> rename_ready obj"
  obtain o1 where r: "rename_rule obj = (o1, None)"
    using a rename_ready_iff [of obj] by (cases "rename_rule obj") auto
  have g: "getattr o1 ''Stats'' = Inr (VFloatList xs)"
    using getattr_after_rename [of obj] r a by simp
  then have "shape_rule o1 = (o1, None)" using a by (simp add: shape_rule_def)
  with r have od: "onDocumentRestored obj = (o1, None)"
    by (simp add: onDocumentRestored_def seq_def)
  then show "snd (onDocumentRestored obj) = None" by simp
  from od g show "getattr (fst (onDocumentRestored obj)) ''Stats'' = Inr (VFloatList xs)" by simp
qed

theorem stats_length_invariant_witness:
  "snd (ResultMechanical_init host_result_object) = None
   \<and> getattr (fst (ResultMechanical_init host_result_object)) ''Stats'' = Inr (VFloatList (replicate 26 0))
   \<and> length legacy_stats = 39
   \<and> snd (onDocumentRestored legacy_result_object) = None
   \<and> (\<exists>ys. getattr (fst (onDocumentRestored legacy_result_object)) ''Stats'' = Inr (VFloatList ys)
          \<and> length ys = 26)"
  using stats_length_invariant [of host_result_object legacy_result_object legacy_stats]
    init_host_ok legacy_hyps
  by simp

text \<open>
  C10 (the pass needs Stats). On an object without a Stats attribute the pass raises; when
  StressValues is absent too, the error is UnknownAttributeError from the read of Stats and
  the store is as before. Every object a construction returns has a Stats attribute.
\<close>

theorem stats_required:
  "(\<not> hasattr obj ''Stats'' \<longrightarrow> snd (onDocumentRestored obj) \<noteq> None)
   \<and> (\<not> hasattr obj ''Stats'' \<longrightarrow> \<not> hasattr obj ''StressValues'' \<longrightarrow>
        onDocumentRestored obj = (obj, Some UnknownAttributeError))
   \<and> (snd (ResultMechanical_init base) = None \<longrightarrow>
        hasattr (fst (ResultMechanical_init base)) ''Stats'')"
proof (intro conjI impI)
  assume ns: "\<not> hasattr obj ''Stats''"
  show "snd (onDocumentRestored obj) \<noteq> None"
  proof (cases "rename_rule obj")
    case (Pair o1 r)
    have "map_of o1 ''Stats'' = None"
      using rename_rule_Stats [of obj] Pair ns by (simp add: hasattr_def)
    then have "shape_rule o1 = (o1, Some UnknownAttributeError)"
      by (simp add: shape_rule_def getattr_def)
    with Pair show ?thesis
      by (cases r) (simp_all add: onDocumentRestored_def seq_def)
  qed
next
  assume "\<not> hasattr obj ''Stats''" and "\<not> hasattr obj ''StressValues''"
  then show "onDocumentRestored obj = (obj, Some UnknownAttributeError)"
    by (simp add: onDocumentRestored_def seq_def rename_rule_def shape_rule_def getattr_def
        hasattr_def)
next
  assume "snd (ResultMechanical_init base) = None"
  then have "ResultMechanical_init base = (fst (ResultMechanical_init base), None)"
    by (metis prod.collapse)
  from init_Stats [OF this] show "hasattr (fst (ResultMechanical_init base)) ''Stats''"
    using has_entry_val by blast
qed

theorem stats_required_witness:
  "\<not> hasattr statsless_object ''Stats''
   \<and> snd (onDocumentRestored statsless_object) \<noteq> None
   \<and> \<not> hasattr [] ''Stats'' \<and> \<not> hasattr [] ''StressValues''
   \<and> onDocumentRestored [] = ([], Some UnknownAttributeError)
   \<and> snd (ResultMechanical_init host_result_object) = None
   \<and> hasattr (fst (ResultMechanical_init host_result_object)) ''Stats''"
proof -
  have h: "\<not> hasattr statsless_object ''Stats''" "\<not> hasattr [] ''Stats''"
      "\<not> hasattr [] ''StressValues''"
    by (simp_all add: statsless_object_def hasattr_def)
  show ?thesis
    using stats_required [of statsless_object host_result_object]
      stats_required [of "[]" host_result_object] h init_host_ok
    by simp
qed

end
